theory Spec2Isabelle
  imports Main "HOL-Library.Word" "HOL-Library.Monad_Syntax" "HOL-Library.Sublist"
begin

section \<open>The uzfs ioctl channel of libcstor: \<open>src/libuzfs_handle.c\<close>\<close>

text \<open>
  The file implements a request/response channel over a stream socket: two transfer
  primitives (\<open>uzfs_read_packet\<close>, \<open>uzfs_write_packet\<close>), the client side
  (\<open>uzfs_send_ioctl\<close>, \<open>uzfs_recv_response\<close>) and the server side
  (\<open>uzfs_recv_ioctl\<close>, \<open>uzfs_send_response\<close>, with the buffer set-up
  \<open>uzfs_ioctl_init\<close> and release \<open>uzfs_ioctl_done\<close>).

  The C code calls the operating system and the allocator. In the embedding every such
  call takes its answer from a script held in the state and appends one event to a
  trace, so that a run is a function of the answers it is given, and what the code did
  can be read off the trace. A run that asks for more answers than the script holds has
  the value \<open>None\<close>: nothing is known about it.
\<close>

subsection \<open>Data\<close>

text \<open>
  Modelled from the spec: the declaration of \<open>uzfs_ioctl_t\<close> is in libuzfs.h, which
  is not part of the sources. The envelope has the four fields the code uses
  (section 3 of the specification): the operation code, the history length, the packet
  size and the return code. The first three are unsigned 64-bit integers, the return
  code is a C int.
\<close>

record uzfs_ioctl_t =
  packet_size :: "64 word"
  ioc_num :: "64 word"
  his_len :: "64 word"
  ioc_ret :: "32 word"

text \<open>
  Modelled from the spec: the declaration of \<open>zfs_cmd_t\<close> is in the ZFS headers,
  which are not part of the sources. The fields the code reads or writes are listed by
  name; buffer locations are pointers kept as unsigned 64-bit integers, as the casts
  \<open>(uint64_t)ptr\<close> and \<open>(void *) zc->zc_nvlist_src\<close> show. Every other field of the
  structure is data this file never looks at; together they are \<open>zc_other\<close>.
\<close>

record zfs_cmd_t =
  zc_nvlist_src :: "64 word"
  zc_nvlist_src_size :: "64 word"
  zc_nvlist_dst :: "64 word"
  zc_nvlist_dst_size :: "64 word"
  zc_nvlist_dst_filled :: "32 word"
  zc_nvlist_conf :: "64 word"
  zc_nvlist_conf_size :: "64 word"
  zc_history :: "64 word"
  zc_history_len :: "64 word"
  zc_guid :: "64 word"
  zc_cookie :: "64 word"
  zc_other :: "8 word list"

text \<open>
  Modelled from the spec: \<open>uzfs_info_t\<close> is declared in libuzfs.h as well. It holds the
  envelope of the request in flight and the descriptor received with it.
\<close>

record uzfs_info_t =
  uzfs_cmd :: uzfs_ioctl_t
  uzfs_recvfd :: int

text \<open>
  The constants the code takes from headers: the two structure sizes, the errno value
  \<open>EPIPE\<close> and the four operation codes that carry a file descriptor. They are
  parameters of the model; every theorem below holds for all their values unless it
  says otherwise.
\<close>

record abi =
  sizeof_uzfs_ioctl_t :: "64 word"
  sizeof_zfs_cmd_t :: "64 word"
  EPIPE :: int
  ZFS_IOC_SEND :: "64 word"
  ZFS_IOC_RECV :: "64 word"
  ZFS_IOC_RECV_NEW :: "64 word"
  ZFS_IOC_SEND_NEW :: "64 word"

text \<open>
  The \<open>void *\<close> argument of a transfer is one of three things: the address of an
  envelope, the address of a descriptor, or a buffer location taken from a descriptor.
  A structure is shown with the value the transfer carries: the value written from it,
  or the value a complete read leaves in it.
\<close>

datatype buf = Envelope uzfs_ioctl_t | Descriptor zfs_cmd_t | Bytes "64 word"

text \<open>
  Events. \<open>E_read fd ptr off count ret\<close> is the call \<open>read(fd, ptr + off, count)\<close>
  with its result, \<open>E_write\<close> likewise. \<open>E_read_packet ptr size ret\<close> and
  \<open>E_write_packet ptr size ret\<close> record what a call of the transfer primitive returned;
  they are bookkeeping of the model and stand for no call of the C code.
\<close>

datatype event =
    E_read int buf "64 word" "64 word" "64 word"
  | E_write int buf "64 word" "64 word" "64 word"
  | E_read_packet buf "64 word" int
  | E_write_packet buf "64 word" int
  | E_malloc "64 word" "64 word"
  | E_free "64 word"
  | E_sendfd int "64 word" int
  | E_recvfd int int
  | E_close int int

text \<open>
  The state: the answers still to be given to \<open>read\<close>/\<open>write\<close> (the \<open>ssize_t\<close>
  result as the bit pattern that lands in the \<open>uint64_t\<close> variable \<open>len\<close>, so that
  \<open>-1\<close> is the word of all ones), to \<open>malloc\<close> (0 is \<open>NULL\<close>), and to
  \<open>do_sendfd\<close>, \<open>do_recvfd\<close> and \<open>close\<close>; and the trace so far.
\<close>

record world =
  io_script :: "64 word list"
  heap_script :: "64 word list"
  fd_script :: "int list"
  trace :: "event list"

definition emit :: "event \<Rightarrow> world \<Rightarrow> world" where
  "emit e w = w\<lparr>trace := trace w @ [e]\<rparr>"

definition new_events :: "world \<Rightarrow> world \<Rightarrow> event list" where
  "new_events w w' = drop (length (trace w)) (trace w')"

subsection \<open>The calls into the system\<close>

definition malloc :: "world \<Rightarrow> 64 word \<Rightarrow> (64 word \<times> world) option" where
  "malloc w sz =
     (case heap_script w of
        [] \<Rightarrow> None
      | ptr # rest \<Rightarrow> Some (ptr, emit (E_malloc sz ptr) (w\<lparr>heap_script := rest\<rparr>)))"

definition free :: "world \<Rightarrow> 64 word \<Rightarrow> world" where
  "free w ptr = emit (E_free ptr) w"

definition do_sendfd :: "world \<Rightarrow> int \<Rightarrow> 64 word \<Rightarrow> (int \<times> world) option" where
  "do_sendfd w fd cookie =
     (case fd_script w of
        [] \<Rightarrow> None
      | r # rest \<Rightarrow> Some (r, emit (E_sendfd fd cookie r) (w\<lparr>fd_script := rest\<rparr>)))"

definition do_recvfd :: "world \<Rightarrow> int \<Rightarrow> (int \<times> world) option" where
  "do_recvfd w fd =
     (case fd_script w of
        [] \<Rightarrow> None
      | r # rest \<Rightarrow> Some (r, emit (E_recvfd fd r) (w\<lparr>fd_script := rest\<rparr>)))"

definition close :: "world \<Rightarrow> int \<Rightarrow> (int \<times> world) option" where
  "close w fd =
     (case fd_script w of
        [] \<Rightarrow> None
      | r # rest \<Rightarrow> Some (r, emit (E_close fd r) (w\<lparr>fd_script := rest\<rparr>)))"

subsection \<open>The transfer primitives\<close>

text \<open>
  \<open>uzfs_read_packet\<close>, lines 117-134. The loop is the recursion
  \<open>uzfs_read_loop\<close>, which takes one answer of the script for each call of
  \<open>read\<close>. \<open>len\<close> and \<open>buf_len\<close> are \<open>uint64_t\<close>: the comparison \<open>len < 0\<close> is
  the unsigned one, and \<open>buf_len += len\<close> wraps.
\<close>

fun uzfs_read_loop ::
  "int \<Rightarrow> buf \<Rightarrow> 64 word \<Rightarrow> 64 word list \<Rightarrow> 64 word \<Rightarrow> event list
     \<Rightarrow> (int \<times> 64 word list \<times> event list) option" where
  "uzfs_read_loop fd ptr sz [] buf_len tr = None"
| "uzfs_read_loop fd ptr sz (len # rest) buf_len tr =
     (let tr' = tr @ [E_read fd ptr buf_len (sz - buf_len) len] in
      if len < 0 then Some (-1, rest, tr')
      else let buf_len' = buf_len + len in
        if len \<noteq> 0 \<and> buf_len' < sz then uzfs_read_loop fd ptr sz rest buf_len' tr'
        else Some (if buf_len' = sz then 1 else 0, rest, tr'))"

definition uzfs_read_packet :: "world \<Rightarrow> int \<Rightarrow> buf \<Rightarrow> 64 word \<Rightarrow> (int \<times> world) option" where
  "uzfs_read_packet w fd ptr sz =
     (if 0 = sz then Some (1, emit (E_read_packet ptr sz 1) w)
      else case uzfs_read_loop fd ptr sz (io_script w) 0 (trace w) of
        None \<Rightarrow> None
      | Some (r, rest, tr) \<Rightarrow>
          Some (r, emit (E_read_packet ptr sz r) (w\<lparr>io_script := rest, trace := tr\<rparr>)))"

text \<open>
  \<open>uzfs_write_packet\<close>, lines 136-153. The loop goes on while \<open>buf_len < size\<close>,
  also after a call of \<open>write\<close> that transferred nothing.
\<close>

fun uzfs_write_loop ::
  "int \<Rightarrow> buf \<Rightarrow> 64 word \<Rightarrow> 64 word list \<Rightarrow> 64 word \<Rightarrow> event list
     \<Rightarrow> (int \<times> 64 word list \<times> event list) option" where
  "uzfs_write_loop fd ptr sz [] buf_len tr = None"
| "uzfs_write_loop fd ptr sz (len # rest) buf_len tr =
     (let tr' = tr @ [E_write fd ptr buf_len (sz - buf_len) len] in
      if len < 0 then Some (-1, rest, tr')
      else let buf_len' = buf_len + len in
        if buf_len' < sz then uzfs_write_loop fd ptr sz rest buf_len' tr'
        else Some (if buf_len' = sz then 1 else 0, rest, tr'))"

definition uzfs_write_packet :: "world \<Rightarrow> int \<Rightarrow> buf \<Rightarrow> 64 word \<Rightarrow> (int \<times> world) option" where
  "uzfs_write_packet w fd ptr sz =
     (if 0 = sz then Some (1, emit (E_write_packet ptr sz 1) w)
      else case uzfs_write_loop fd ptr sz (io_script w) 0 (trace w) of
        None \<Rightarrow> None
      | Some (r, rest, tr) \<Rightarrow>
          Some (r, emit (E_write_packet ptr sz r) (w\<lparr>io_script := rest, trace := tr\<rparr>)))"

subsection \<open>Buffer set-up and release on the server\<close>

text \<open>\<open>uzfs_ioctl_done\<close>, lines 36-42: four calls of \<open>free\<close>, in this order.\<close>

definition uzfs_ioctl_done :: "world \<Rightarrow> uzfs_ioctl_t \<Rightarrow> zfs_cmd_t \<Rightarrow> world" where
  "uzfs_ioctl_done w cmd zc =
     (let w = free w (zc_nvlist_src zc);
          w = free w (zc_nvlist_dst zc);
          w = free w (zc_nvlist_conf zc);
          w = free w (zc_history zc)
      in w)"

text \<open>
  \<open>uzfs_ioctl_init\<close>, lines 44-81. The function is a chain of four allocations, each
  of which may jump to the label \<open>err\<close>; the model has one definition for the label and
  one for the code from each allocation to the end of the function. The result is the
  returned int, the state and the descriptor as the function leaves it.
\<close>

definition ioctl_init_err ::
  "world \<Rightarrow> uzfs_ioctl_t \<Rightarrow> zfs_cmd_t \<Rightarrow> (int \<times> world \<times> zfs_cmd_t) option" where
  "ioctl_init_err w cmd zc = Some (-1, uzfs_ioctl_done w cmd zc, zc)"

text \<open>Lines 69-77.\<close>

definition ioctl_init_history ::
  "world \<Rightarrow> uzfs_ioctl_t \<Rightarrow> zfs_cmd_t \<Rightarrow> (int \<times> world \<times> zfs_cmd_t) option" where
  "ioctl_init_history w cmd zc =
     (let his_size = (if his_len cmd \<noteq> 0 then his_len cmd else zc_history_len zc) in
      if his_size \<noteq> 0 then
        do {
          (ptr, w) \<leftarrow> malloc w his_size;
          if ptr = 0 then ioctl_init_err w cmd zc
          else Some (0, w, zc\<lparr>zc_history := ptr\<rparr>)
        }
      else Some (0, w, zc))"

text \<open>Lines 63-68, then the rest.\<close>

definition ioctl_init_conf ::
  "world \<Rightarrow> uzfs_ioctl_t \<Rightarrow> zfs_cmd_t \<Rightarrow> (int \<times> world \<times> zfs_cmd_t) option" where
  "ioctl_init_conf w cmd zc =
     (if zc_nvlist_conf_size zc \<noteq> 0 then
        do {
          (ptr, w) \<leftarrow> malloc w (zc_nvlist_conf_size zc);
          if ptr = 0 then ioctl_init_err w cmd zc
          else ioctl_init_history w cmd (zc\<lparr>zc_nvlist_conf := ptr\<rparr>)
        }
      else ioctl_init_history w cmd zc)"

text \<open>Lines 57-62, then the rest.\<close>

definition ioctl_init_dst ::
  "world \<Rightarrow> uzfs_ioctl_t \<Rightarrow> zfs_cmd_t \<Rightarrow> (int \<times> world \<times> zfs_cmd_t) option" where
  "ioctl_init_dst w cmd zc =
     (if zc_nvlist_dst_size zc \<noteq> 0 then
        do {
          (ptr, w) \<leftarrow> malloc w (zc_nvlist_dst_size zc);
          if ptr = 0 then ioctl_init_err w cmd zc
          else ioctl_init_conf w cmd (zc\<lparr>zc_nvlist_dst := ptr\<rparr>)
        }
      else ioctl_init_conf w cmd zc)"

text \<open>Lines 48-56, then the rest.\<close>

definition uzfs_ioctl_init ::
  "world \<Rightarrow> uzfs_ioctl_t \<Rightarrow> zfs_cmd_t \<Rightarrow> (int \<times> world \<times> zfs_cmd_t) option" where
  "uzfs_ioctl_init w cmd zc0 =
     (let zc = zc0\<lparr>zc_nvlist_src := 0, zc_nvlist_dst := 0, zc_nvlist_conf := 0,
                   zc_history := 0\<rparr> in
      if zc_nvlist_src_size zc \<noteq> 0 then
        do {
          (ptr, w) \<leftarrow> malloc w (zc_nvlist_src_size zc);
          if ptr = 0 then ioctl_init_err w cmd zc
          else ioctl_init_dst w cmd (zc\<lparr>zc_nvlist_src := ptr\<rparr>)
        }
      else ioctl_init_dst w cmd zc)"

subsection \<open>The client\<close>

text \<open>
  \<open>uzfs_recv_response\<close>, lines 155-197. \<open>ucmd\<close> and \<open>uzc\<close> are the values the two
  local structures \<open>uzfs_cmd\<close> and \<open>uzc\<close> hold once their reads are complete. A
  condition \<open>a && b && uzfs_read_packet(...) <= 0\<close> is evaluated from the left and makes
  the call only when \<open>a\<close> and \<open>b\<close> hold. The result is the returned int, the state and
  the caller's descriptor \<open>*zc\<close>.

  The buffers the descriptor points to are taken to be disjoint from the descriptor
  itself, so that reading into them leaves \<open>*zc\<close> as it is.
\<close>

definition uzfs_recv_response ::
  "abi \<Rightarrow> world \<Rightarrow> int \<Rightarrow> zfs_cmd_t \<Rightarrow> uzfs_ioctl_t \<Rightarrow> zfs_cmd_t
     \<Rightarrow> (int \<times> world \<times> zfs_cmd_t) option" where
  "uzfs_recv_response K w fd zc ucmd uzc =
     do {
       (r, w) \<leftarrow> uzfs_read_packet w fd (Envelope ucmd) (sizeof_uzfs_ioctl_t K);
       if r \<le> 0 then Some (EPIPE K, w, zc) else
       do {
         (r, w) \<leftarrow> uzfs_read_packet w fd (Descriptor uzc) (sizeof_zfs_cmd_t K);
         if r \<le> 0 then Some (EPIPE K, w, zc) else
         do {
           let src = zc_nvlist_src zc;
           let dst = zc_nvlist_dst zc;
           let conf = zc_nvlist_conf zc;
           let his = zc_history zc;
           let zc = uzc;
           let zc = zc\<lparr>zc_nvlist_src := src\<rparr>;
           let zc = zc\<lparr>zc_nvlist_dst := dst\<rparr>;
           let zc = zc\<lparr>zc_nvlist_conf := conf\<rparr>;
           let zc = zc\<lparr>zc_history := his\<rparr>;
           (failed, w) \<leftarrow>
             (if zc_history zc \<noteq> 0 \<and> zc_history_len zc \<noteq> 0 then
                do {
                  (r, w) \<leftarrow> uzfs_read_packet w fd (Bytes (zc_history zc)) (zc_history_len zc);
                  Some (r \<le> 0, w)
                }
              else Some (False, w));
           if failed then Some (EPIPE K, w, zc) else
           do {
             (failed, w) \<leftarrow>
               (if zc_nvlist_dst_filled uzc \<noteq> 0 then
                  do {
                    (r, w) \<leftarrow> uzfs_read_packet w fd (Bytes (zc_nvlist_dst zc))
                                (zc_nvlist_dst_size zc);
                    Some (r \<le> 0, w)
                  }
                else Some (False, w));
             if failed then Some (EPIPE K, w, zc)
             else Some (sint (ioc_ret ucmd), w, zc)
           }
         }
       }
     }"

text \<open>
  The C library's \<open>strlen\<close> on a memory of bytes: the offset of the first zero byte
  from \<open>s\<close> on. Over a memory without a zero byte the search does not end.
\<close>

partial_function (option) strlen_from ::
  "(64 word \<Rightarrow> 8 word) \<Rightarrow> 64 word \<Rightarrow> 64 word \<Rightarrow> 64 word option" where
  "strlen_from mem s n = (if mem (s + n) = 0 then Some n else strlen_from mem s (n + 1))"

declare strlen_from.simps [code]

definition strlen :: "(64 word \<Rightarrow> 8 word) \<Rightarrow> 64 word \<Rightarrow> 64 word option" where
  "strlen mem s = strlen_from mem s 0"

text \<open>
  \<open>uzfs_send_ioctl\<close>, lines 199-246. \<open>mem\<close> is the memory of the calling process,
  which \<open>strlen\<close> reads. The result is the returned int and the state.
\<close>

definition uzfs_send_ioctl ::
  "abi \<Rightarrow> (64 word \<Rightarrow> 8 word) \<Rightarrow> world \<Rightarrow> int \<Rightarrow> 64 word \<Rightarrow> zfs_cmd_t
     \<Rightarrow> (int \<times> world) option" where
  "uzfs_send_ioctl K mem w fd request zc =
     do {
       let cmd = \<lparr>packet_size = 0, ioc_num = 0, his_len = 0, ioc_ret = 0\<rparr>;
       let cmd = cmd\<lparr>ioc_num := request\<rparr>;
       cmd \<leftarrow>
         (if zc_history_len zc = 0 \<and> zc_history zc \<noteq> 0 then
            do { n \<leftarrow> strlen mem (zc_history zc); Some (cmd\<lparr>his_len := n\<rparr>) }
          else Some cmd);
       let src = Bytes (zc_nvlist_src zc);
       let conf = Bytes (zc_nvlist_conf zc);
       let his = Bytes (zc_history zc);
       let cmd = cmd\<lparr>packet_size :=
             sizeof_uzfs_ioctl_t K + sizeof_zfs_cmd_t K
               + zc_nvlist_src_size zc + zc_nvlist_conf_size zc
               + his_len cmd\<rparr>;
       (r, w) \<leftarrow> uzfs_write_packet w fd (Envelope cmd) (sizeof_uzfs_ioctl_t K);
       if r \<le> 0 then Some (-1, w) else
       do {
         (r, w) \<leftarrow> uzfs_write_packet w fd (Descriptor zc) (sizeof_zfs_cmd_t K);
         if r \<le> 0 then Some (-1, w) else
         do {
           (r, w) \<leftarrow> uzfs_write_packet w fd src (zc_nvlist_src_size zc);
           if r \<le> 0 then Some (-1, w) else
           do {
             (r, w) \<leftarrow> uzfs_write_packet w fd conf (zc_nvlist_conf_size zc);
             if r \<le> 0 then Some (-1, w) else
             do {
               (r, w) \<leftarrow> uzfs_write_packet w fd his (his_len cmd);
               if r \<le> 0 then Some (-1, w) else
               if (ioc_num cmd = ZFS_IOC_SEND K \<and> zc_guid zc = 0) \<or>
                  ioc_num cmd = ZFS_IOC_RECV K \<or>
                  ioc_num cmd = ZFS_IOC_RECV_NEW K \<or>
                  ioc_num cmd = ZFS_IOC_SEND_NEW K
               then
                 do {
                   (r, w) \<leftarrow> do_sendfd w fd (zc_cookie zc);
                   if r = -1 then Some (-1, w) else Some (0, w)
                 }
               else Some (0, w)
             }
           }
         }
       }
     }"

subsection \<open>The server\<close>

text \<open>
  \<open>uzfs_recv_ioctl\<close>, lines 248-287. \<open>ucmd\<close> and \<open>zc_in\<close> are the values a complete
  read leaves in \<open>ucmd_info->uzfs_cmd\<close> and in \<open>*zc\<close>. After a read that was not
  complete the C structure holds some mixture of old and new bytes; the model keeps the
  old value there, and no statement below depends on it. The result is the returned
  int, the state, \<open>*zc\<close> and \<open>*ucmd_info\<close>.
\<close>

definition recv_ioctl_err ::
  "world \<Rightarrow> zfs_cmd_t \<Rightarrow> uzfs_info_t \<Rightarrow> (int \<times> world \<times> zfs_cmd_t \<times> uzfs_info_t) option" where
  "recv_ioctl_err w zc ucmd_info =
     Some (-1, uzfs_ioctl_done w (uzfs_cmd ucmd_info) zc, zc, ucmd_info)"

definition uzfs_recv_ioctl ::
  "abi \<Rightarrow> world \<Rightarrow> int \<Rightarrow> zfs_cmd_t \<Rightarrow> uzfs_info_t \<Rightarrow> uzfs_ioctl_t \<Rightarrow> zfs_cmd_t
     \<Rightarrow> (int \<times> world \<times> zfs_cmd_t \<times> uzfs_info_t) option" where
  "uzfs_recv_ioctl K w fd zc ucmd_info ucmd zc_in =
     do {
       let ucmd_info = ucmd_info\<lparr>uzfs_recvfd := -1\<rparr>;
       (r, w) \<leftarrow> uzfs_read_packet w fd (Envelope ucmd) (sizeof_uzfs_ioctl_t K);
       if r \<le> 0 then Some (-1, w, zc, ucmd_info) else
       do {
         let ucmd_info = ucmd_info\<lparr>uzfs_cmd := ucmd\<rparr>;
         (r, w) \<leftarrow> uzfs_read_packet w fd (Descriptor zc_in) (sizeof_zfs_cmd_t K);
         if r \<le> 0 then Some (-1, w, zc, ucmd_info) else
         do {
           let zc = zc_in;
           (r, w, zc) \<leftarrow> uzfs_ioctl_init w (uzfs_cmd ucmd_info) zc;
           if r < 0 then Some (-1, w, zc, ucmd_info) else
           do {
             (r, w) \<leftarrow> uzfs_read_packet w fd (Bytes (zc_nvlist_src zc)) (zc_nvlist_src_size zc);
             if r \<le> 0 then recv_ioctl_err w zc ucmd_info else
             do {
               (r, w) \<leftarrow> uzfs_read_packet w fd (Bytes (zc_nvlist_conf zc))
                           (zc_nvlist_conf_size zc);
               if r \<le> 0 then recv_ioctl_err w zc ucmd_info else
               do {
                 (r, w) \<leftarrow> uzfs_read_packet w fd (Bytes (zc_history zc))
                             (his_len (uzfs_cmd ucmd_info));
                 if r \<le> 0 then recv_ioctl_err w zc ucmd_info else
                 if (ioc_num (uzfs_cmd ucmd_info) = ZFS_IOC_SEND K \<and> zc_guid zc = 0) \<or>
                    ioc_num (uzfs_cmd ucmd_info) = ZFS_IOC_RECV K \<or>
                    ioc_num (uzfs_cmd ucmd_info) = ZFS_IOC_RECV_NEW K \<or>
                    ioc_num (uzfs_cmd ucmd_info) = ZFS_IOC_SEND_NEW K
                 then
                   do {
                     (r, w) \<leftarrow> do_recvfd w fd;
                     let ucmd_info = ucmd_info\<lparr>uzfs_recvfd := r\<rparr>;
                     if r < 0 then recv_ioctl_err w zc ucmd_info
                     else Some (0, w, zc, ucmd_info)
                   }
                 else Some (0, w, zc, ucmd_info)
               }
             }
           }
         }
       }
     }"





subsection \<open>Reading a trace\<close>

text \<open>
  The calls of one kind in a list of events, in the order they were made:
  the pointers given to \<open>free\<close>, the (size, result) pairs of \<open>malloc\<close>, the
  (target, size, result) triples of the two transfer primitives, and the calls of
  the descriptor transfer.
\<close>

definition free_calls :: "event list \<Rightarrow> 64 word list" where
  "free_calls evs = concat (map (\<lambda>e. case e of E_free p \<Rightarrow> [p] | _ \<Rightarrow> []) evs)"

definition malloc_calls :: "event list \<Rightarrow> (64 word \<times> 64 word) list" where
  "malloc_calls evs = concat (map (\<lambda>e. case e of E_malloc n p \<Rightarrow> [(n, p)] | _ \<Rightarrow> []) evs)"

definition read_packets :: "event list \<Rightarrow> (buf \<times> 64 word \<times> int) list" where
  "read_packets evs =
     concat (map (\<lambda>e. case e of E_read_packet b n r \<Rightarrow> [(b, n, r)] | _ \<Rightarrow> []) evs)"

definition write_packets :: "event list \<Rightarrow> (buf \<times> 64 word \<times> int) list" where
  "write_packets evs =
     concat (map (\<lambda>e. case e of E_write_packet b n r \<Rightarrow> [(b, n, r)] | _ \<Rightarrow> []) evs)"

definition sendfd_calls :: "event list \<Rightarrow> (int \<times> 64 word) list" where
  "sendfd_calls evs = concat (map (\<lambda>e. case e of E_sendfd fd c r \<Rightarrow> [(fd, c)] | _ \<Rightarrow> []) evs)"

definition recvfd_calls :: "event list \<Rightarrow> int list" where
  "recvfd_calls evs = concat (map (\<lambda>e. case e of E_recvfd fd r \<Rightarrow> [fd] | _ \<Rightarrow> []) evs)"

text \<open>The calls of \<open>read\<close> and \<open>write\<close>.\<close>

fun is_io :: "event \<Rightarrow> bool" where
  "is_io (E_read fd p off cnt r) = True"
| "is_io (E_write fd p off cnt r) = True"
| "is_io e = False"

text \<open>
  Calls of \<open>read\<close> in a trace. \<open>read_at fd p n\<close> holds of a call on \<open>fd\<close> into the
  target \<open>p\<close> that asks for the bytes from its offset up to \<open>n\<close>; \<open>full_read\<close> of a
  call that returned the count it asked for; \<open>eof_read\<close> of a call that returned 0, as
  \<open>read\<close> does when the peer has closed the connection. \<open>byte_reads\<close> lists, for the
  calls that read into a buffer location, the location and the offset the call asks to
  fill the buffer up to.
\<close>

fun read_at :: "int \<Rightarrow> buf \<Rightarrow> 64 word \<Rightarrow> event \<Rightarrow> bool" where
  "read_at fd p n (E_read fd' q off cnt r) = (fd' = fd \<and> q = p \<and> off + cnt = n)"
| "read_at fd p n e = False"

fun full_read :: "event \<Rightarrow> bool" where
  "full_read (E_read fd p off cnt r) = (r = cnt)"
| "full_read e = True"

fun eof_read :: "event \<Rightarrow> bool" where
  "eof_read (E_read fd p off cnt r) = (r = 0)"
| "eof_read e = False"

definition byte_reads :: "event list \<Rightarrow> (64 word \<times> 64 word) list" where
  "byte_reads evs =
     concat (map (\<lambda>e. case e of E_read fd (Bytes p) off cnt r \<Rightarrow> [(p, off + cnt)] | _ \<Rightarrow> []) evs)"

text \<open>
  \<open>c_string mem p s\<close>: the memory holds at \<open>p\<close> the characters \<open>s\<close>, none of them
  zero, followed by a zero byte.
\<close>

fun c_string :: "(64 word \<Rightarrow> 8 word) \<Rightarrow> 64 word \<Rightarrow> 8 word list \<Rightarrow> bool" where
  "c_string mem p [] = (mem p = 0)"
| "c_string mem p (c # cs) = (mem p = c \<and> c \<noteq> 0 \<and> c_string mem (p + 1) cs)"

text \<open>A state with the given scripts and an empty trace, for running examples.\<close>

definition scripted :: "64 word list \<Rightarrow> 64 word list \<Rightarrow> int list \<Rightarrow> world" where
  "scripted io heap fds = \<lparr>io_script = io, heap_script = heap, fd_script = fds, trace = []\<rparr>"

text \<open>
  The four buffer locations of a descriptor, in the order \<open>uzfs_ioctl_done\<close> releases
  them, and the locations of a list that are not \<open>NULL\<close>.
\<close>

definition buffers :: "zfs_cmd_t \<Rightarrow> 64 word list" where
  "buffers zc = [zc_nvlist_src zc, zc_nvlist_dst zc, zc_nvlist_conf zc, zc_history zc]"

definition non_null :: "64 word list \<Rightarrow> 64 word list" where
  "non_null ps = filter (\<lambda>p. p \<noteq> 0) ps"

text \<open>
  Two predicates for the proofs about \<open>uzfs_ioctl_init\<close>. \<open>init_run\<close> is the shape of
  a run that made the allocations \<open>ms\<close> (size and result of each): it added them to the
  trace, took their results from the script, and released the four buffers when it
  failed. \<open>allocated\<close> relates the allocations to the locations they were stored in
  and to the sizes they were made for.
\<close>

definition init_run ::
  "world \<Rightarrow> world \<Rightarrow> int \<Rightarrow> zfs_cmd_t \<Rightarrow> (64 word \<times> 64 word) list \<Rightarrow> bool" where
  "init_run w w' r zc' ms \<longleftrightarrow>
     trace w' = trace w @ map (\<lambda>(n, p). E_malloc n p) ms
                  @ (if r = 0 then [] else map E_free (buffers zc')) \<and>
     heap_script w = map snd ms @ heap_script w' \<and>
     io_script w' = io_script w \<and> fd_script w' = fd_script w \<and>
     (r = 0 \<or> r = -1)"

definition allocated ::
  "(64 word \<times> 64 word) list \<Rightarrow> 64 word list \<Rightarrow> 64 word list \<Rightarrow> int \<Rightarrow> bool" where
  "allocated ms ptrs sizes r \<longleftrightarrow>
     non_null (map snd ms) = non_null ptrs \<and>
     prefix (map fst ms) (non_null sizes) \<and>
     (r = 0 \<longrightarrow> map snd ms = non_null ptrs \<and> map fst ms = non_null sizes \<and>
        list_all2 (\<lambda>p n. p \<noteq> 0 \<longleftrightarrow> n \<noteq> 0) ptrs sizes)"

text \<open>
  A descriptor and an envelope for running examples: three buffers of 5, 6 and 7 bytes,
  a history length of 10 in the descriptor and of 3 in the envelope.
\<close>

definition sample_zc :: zfs_cmd_t where
  "sample_zc = \<lparr>zc_nvlist_src = 0x7f0000001000, zc_nvlist_src_size = 5,
     zc_nvlist_dst = 0x7f0000002000, zc_nvlist_dst_size = 6, zc_nvlist_dst_filled = 0,
     zc_nvlist_conf = 0x7f0000003000, zc_nvlist_conf_size = 7,
     zc_history = 0x7f0000004000, zc_history_len = 10,
     zc_guid = 0, zc_cookie = 5, zc_other = []\<rparr>"

definition sample_cmd :: uzfs_ioctl_t where
  "sample_cmd = \<lparr>packet_size = 0, ioc_num = 0, his_len = 3, ioc_ret = 0\<rparr>"

text \<open>
  Values for the constants, for running examples. Nothing depends on the particular
  numbers beyond the four operation codes being different.
\<close>

definition sample_abi :: abi where
  "sample_abi = \<lparr>sizeof_uzfs_ioctl_t = 32, sizeof_zfs_cmd_t = 13744, EPIPE = 32,
     ZFS_IOC_SEND = 0x5a1c, ZFS_IOC_RECV = 0x5a1b, ZFS_IOC_RECV_NEW = 0x5a46,
     ZFS_IOC_SEND_NEW = 0x5a45\<rparr>"

text \<open>
  The image of a reply as a peer sends it: its own buffer locations, sizes 4 for the
  history and 6 for the output, the output marked as filled, return code 2. And a
  memory that holds the string \<open>abc\<close> at the history location of \<open>sample_zc\<close>.
\<close>

definition sample_reply :: zfs_cmd_t where
  "sample_reply = \<lparr>zc_nvlist_src = 0xdead0001, zc_nvlist_src_size = 5,
     zc_nvlist_dst = 0xdead0002, zc_nvlist_dst_size = 6, zc_nvlist_dst_filled = 1,
     zc_nvlist_conf = 0xdead0003, zc_nvlist_conf_size = 7,
     zc_history = 0xdead0004, zc_history_len = 4,
     zc_guid = 9, zc_cookie = 5, zc_other = [1, 2, 3]\<rparr>"

definition sample_reply_cmd :: uzfs_ioctl_t where
  "sample_reply_cmd = \<lparr>packet_size = 13786, ioc_num = 0x5a04, his_len = 0, ioc_ret = 2\<rparr>"

definition sample_mem :: "64 word \<Rightarrow> 8 word" where
  "sample_mem = (\<lambda>a. 0)(0x7f0000004000 := 0x61, 0x7f0000004001 := 0x62, 0x7f0000004002 := 0x63)"

section \<open>Properties\<close>

subsection \<open>Traces\<close>

lemma free_calls_simps [simp]:
  "free_calls [] = []"
  "free_calls (e # evs) = (case e of E_free p \<Rightarrow> [p] | _ \<Rightarrow> []) @ free_calls evs"
  "free_calls (xs @ ys) = free_calls xs @ free_calls ys"
  by (simp_all add: free_calls_def)

lemma malloc_calls_simps [simp]:
  "malloc_calls [] = []"
  "malloc_calls (e # evs) = (case e of E_malloc n p \<Rightarrow> [(n, p)] | _ \<Rightarrow> []) @ malloc_calls evs"
  "malloc_calls (xs @ ys) = malloc_calls xs @ malloc_calls ys"
  by (simp_all add: malloc_calls_def)

lemma read_packets_simps [simp]:
  "read_packets [] = []"
  "read_packets (e # evs) = (case e of E_read_packet b n r \<Rightarrow> [(b, n, r)] | _ \<Rightarrow> []) @ read_packets evs"
  "read_packets (xs @ ys) = read_packets xs @ read_packets ys"
  by (simp_all add: read_packets_def)

lemma write_packets_simps [simp]:
  "write_packets [] = []"
  "write_packets (e # evs) = (case e of E_write_packet b n r \<Rightarrow> [(b, n, r)] | _ \<Rightarrow> []) @ write_packets evs"
  "write_packets (xs @ ys) = write_packets xs @ write_packets ys"
  by (simp_all add: write_packets_def)

lemma sendfd_calls_simps [simp]:
  "sendfd_calls [] = []"
  "sendfd_calls (e # evs) = (case e of E_sendfd fd c r \<Rightarrow> [(fd, c)] | _ \<Rightarrow> []) @ sendfd_calls evs"
  "sendfd_calls (xs @ ys) = sendfd_calls xs @ sendfd_calls ys"
  by (simp_all add: sendfd_calls_def)

lemma recvfd_calls_simps [simp]:
  "recvfd_calls [] = []"
  "recvfd_calls (e # evs) = (case e of E_recvfd fd r \<Rightarrow> [fd] | _ \<Rightarrow> []) @ recvfd_calls evs"
  "recvfd_calls (xs @ ys) = recvfd_calls xs @ recvfd_calls ys"
  by (simp_all add: recvfd_calls_def)

lemma only_io_calls [simp]:
  assumes "list_all is_io evs"
  shows "free_calls evs = []" and "malloc_calls evs = []" and "read_packets evs = []"
    and "write_packets evs = []" and "sendfd_calls evs = []" and "recvfd_calls evs = []"
  using assms by (induction evs; auto split: event.splits)+

lemma byte_reads_simps [simp]:
  "byte_reads [] = []"
  "byte_reads (e # evs) =
     (case e of E_read fd (Bytes p) off cnt r \<Rightarrow> [(p, off + cnt)] | _ \<Rightarrow> []) @ byte_reads evs"
  "byte_reads (xs @ ys) = byte_reads xs @ byte_reads ys"
  by (simp_all add: byte_reads_def)

lemma read_at_is_io: "list_all (read_at fd p n) evs \<Longrightarrow> list_all is_io evs"
  by (induction evs) (auto elim: read_at.elims)

lemma read_at_byte_reads:
  "list_all (read_at fd p n) evs \<Longrightarrow>
     set (byte_reads evs) \<subseteq> (case p of Bytes q \<Rightarrow> {(q, n)} | _ \<Rightarrow> {})"
  by (induction evs) (auto elim!: read_at.elims split: buf.splits)

lemma uzfs_read_loop_run:
  "uzfs_read_loop fd p n rs b tr = Some (r, rs', tr') \<Longrightarrow> b < n \<Longrightarrow>
     (r = 0 \<or> r = 1) \<and>
     (\<exists>evs. tr' = tr @ evs \<and> list_all (read_at fd p n) evs \<and>
        (list_all full_read evs \<longrightarrow> r = 1) \<and> (list_ex eof_read evs \<longrightarrow> r = 0))"
proof (induction rs arbitrary: b tr)
  case Nil
  then show ?case by simp
next
  case (Cons len rest)
  let ?e = "E_read fd p b (n - b) len"
  show ?case
  proof (cases "len \<noteq> 0 \<and> b + len < n")
    case True
    with Cons.prems have "uzfs_read_loop fd p n rest (b + len) (tr @ [?e]) = Some (r, rs', tr')"
      by (simp add: Let_def)
    from Cons.IH [OF this] True obtain evs where
      "r = 0 \<or> r = 1" "tr' = (tr @ [?e]) @ evs" "list_all (read_at fd p n) evs"
      "list_all full_read evs \<longrightarrow> r = 1" "list_ex eof_read evs \<longrightarrow> r = 0"
      by auto
    with True show ?thesis
      by (intro conjI exI [of _ "?e # evs"]) auto
  next
    case False
    with Cons.prems have "tr' = tr @ [?e]" "r = (if b + len = n then 1 else 0)"
      by (auto simp: Let_def split: if_splits)
    moreover have "b + len = n" if "len = n - b"
      using that by simp
    moreover have "b + len \<noteq> n" if "len = 0"
      using that Cons.prems(2) by simp
    ultimately show ?thesis
      by (intro conjI exI [of _ "[?e]"]) auto
  qed
qed

lemma uzfs_write_loop_Some:
  "uzfs_write_loop fd p n rs b tr = Some (r, rs', tr') \<Longrightarrow>
     (r = 0 \<or> r = 1) \<and> (\<exists>evs. tr' = tr @ evs \<and> list_all is_io evs)"
proof (induction rs arbitrary: b tr)
  case Nil
  then show ?case by simp
next
  case (Cons len rest)
  show ?case
  proof (cases "b + len < n")
    case True
    with Cons.prems have "uzfs_write_loop fd p n rest (b + len)
        (tr @ [E_write fd p b (n - b) len]) = Some (r, rs', tr')"
      by (simp add: Let_def)
    from Cons.IH [OF this] show ?thesis by auto
  next
    case False
    with Cons.prems show ?thesis by (auto simp: Let_def split: if_splits)
  qed
qed

lemma uzfs_read_packetE:
  assumes "uzfs_read_packet w fd p n = Some (r, w')"
  obtains evs where "trace w' = trace w @ evs @ [E_read_packet p n r]"
    "list_all (read_at fd p n) evs"
    "list_all full_read evs \<longrightarrow> r = 1" "list_ex eof_read evs \<longrightarrow> r = 0"
    "heap_script w' = heap_script w" "fd_script w' = fd_script w" "r = 0 \<or> r = 1"
proof (cases "n = 0")
  case True
  with assms have "trace w' = trace w @ [] @ [E_read_packet p n r]"
    "list_all (read_at fd p n) []" "list_all full_read [] \<longrightarrow> r = 1"
    "list_ex eof_read [] \<longrightarrow> r = 0"
    "heap_script w' = heap_script w" "fd_script w' = fd_script w" "r = 0 \<or> r = 1"
    by (auto simp: uzfs_read_packet_def emit_def)
  then show ?thesis by (rule that)
next
  case False
  with assms obtain rest tr where
    loop: "uzfs_read_loop fd p n (io_script w) 0 (trace w) = Some (r, rest, tr)" and
    w': "w' = emit (E_read_packet p n r) (w\<lparr>io_script := rest, trace := tr\<rparr>)"
    by (auto simp: uzfs_read_packet_def split: option.splits)
  from False have "0 < n" by (simp add: word_neq_0_conv)
  from uzfs_read_loop_run [OF loop this] obtain evs where
    "r = 0 \<or> r = 1" "tr = trace w @ evs" "list_all (read_at fd p n) evs"
    "list_all full_read evs \<longrightarrow> r = 1" "list_ex eof_read evs \<longrightarrow> r = 0"
    by auto
  with w' show ?thesis by (intro that [of evs]) (simp_all add: emit_def)
qed


lemma uzfs_write_packetE:
  assumes "uzfs_write_packet w fd p n = Some (r, w')"
  obtains evs where "trace w' = trace w @ evs @ [E_write_packet p n r]" "list_all is_io evs"
    "heap_script w' = heap_script w" "fd_script w' = fd_script w" "r = 0 \<or> r = 1"
proof (cases "n = 0")
  case True
  with assms have "trace w' = trace w @ [] @ [E_write_packet p n r]" "list_all is_io []"
    "heap_script w' = heap_script w" "fd_script w' = fd_script w" "r = 0 \<or> r = 1"
    by (auto simp: uzfs_write_packet_def emit_def)
  then show ?thesis by (rule that)
next
  case False
  with assms obtain rest tr where
    loop: "uzfs_write_loop fd p n (io_script w) 0 (trace w) = Some (r, rest, tr)" and
    w': "w' = emit (E_write_packet p n r) (w\<lparr>io_script := rest, trace := tr\<rparr>)"
    by (auto simp: uzfs_write_packet_def split: option.splits)
  from uzfs_write_loop_Some [OF loop] obtain evs where
    "r = 0 \<or> r = 1" "tr = trace w @ evs" "list_all is_io evs" by auto
  with w' show ?thesis by (intro that [of evs]) (simp_all add: emit_def)
qed

lemma read_at_calls [simp]:
  assumes "list_all (read_at fd p n) evs"
  shows "read_packets evs = []"
  using read_at_is_io [OF assms] by simp


lemma read_at_byte_reads_struct [simp]:
  "list_all (read_at fd (Envelope h) n) evs \<Longrightarrow> byte_reads evs = []"
  "list_all (read_at fd (Descriptor d) n) evs \<Longrightarrow> byte_reads evs = []"
  by (induction evs; auto elim!: read_at.elims)+

lemma read_at_byte_reads_bytes:
  "list_all (read_at fd (Bytes q) n) evs \<Longrightarrow> set (byte_reads evs) \<subseteq> {(q, n)}"
  by (drule read_at_byte_reads) simp

lemmas run_defs = Let_def uzfs_read_packet_def uzfs_write_packet_def emit_def scripted_def
  sample_abi_def sample_zc_def sample_cmd_def sample_reply_def sample_reply_cmd_def
  do_sendfd_def do_recvfd_def close_def

subsection \<open>What the transfer primitives return\<close>

text \<open>
  A call of \<open>read\<close> or \<open>write\<close> that transfers everything it is asked for ends the
  transfer with success. And whatever the calls answer, the primitives return 0 or 1,
  never -1.
\<close>

lemma uzfs_read_packet_full:
  "n \<noteq> 0 \<Longrightarrow> io_script w = n # rest \<Longrightarrow>
     uzfs_read_packet w fd p n =
       Some (1, w\<lparr>io_script := rest,
                   trace := trace w @ [E_read fd p 0 n n, E_read_packet p n 1]\<rparr>)"
  by (simp add: uzfs_read_packet_def emit_def)

lemma uzfs_write_packet_full:
  "n \<noteq> 0 \<Longrightarrow> io_script w = n # rest \<Longrightarrow>
     uzfs_write_packet w fd p n =
       Some (1, w\<lparr>io_script := rest,
                   trace := trace w @ [E_write fd p 0 n n, E_write_packet p n 1]\<rparr>)"
  by (simp add: uzfs_write_packet_def emit_def)

lemma uzfs_packet_never_minus_one:
  "uzfs_read_packet w fd p n = Some (r, w') \<Longrightarrow> r \<noteq> -1"
  "uzfs_write_packet w fd p n = Some (r, w') \<Longrightarrow> r \<noteq> -1"
  by (auto elim: uzfs_read_packetE uzfs_write_packetE)

text \<open>
  C1. The claim: a transfer either moves exactly the requested number of bytes and
  reports success, or reports an outcome in which a short transfer (the peer closed the
  connection) and a transport error (the call failed) are different return values, and
  a partial transfer is never reported as a success.

  The code tests \<open>(len = read(...)) < 0\<close> on the \<open>uint64_t\<close> variable \<open>len\<close>, which
  never holds, so \<open>return (-1)\<close> is never reached. With a request for 4 bytes: a
  \<open>read\<close> that fails at once (-1) makes \<open>uzfs_read_packet\<close> return 0, the value it
  returns when the peer has closed (\<open>read\<close> gives 0); the same holds for
  \<open>uzfs_write_packet\<close>; and when \<open>read\<close> gives 2, then -1, then 3, the failure takes
  one byte off the count, five bytes are consumed and the function reports success.
\<close>

theorem uzfs_packet_error_not_told_apart:
  "uzfs_read_packet (scripted [-1] [] []) 3 (Bytes 0x1000) 4 =
     Some (0, \<lparr>io_script = [], heap_script = [], fd_script = [],
       trace = [E_read 3 (Bytes 0x1000) 0 4 (-1), E_read_packet (Bytes 0x1000) 4 0]\<rparr>)
   \<and> uzfs_read_packet (scripted [0] [] []) 3 (Bytes 0x1000) 4 =
     Some (0, \<lparr>io_script = [], heap_script = [], fd_script = [],
       trace = [E_read 3 (Bytes 0x1000) 0 4 0, E_read_packet (Bytes 0x1000) 4 0]\<rparr>)
   \<and> uzfs_write_packet (scripted [-1] [] []) 3 (Bytes 0x1000) 4 =
     Some (0, \<lparr>io_script = [], heap_script = [], fd_script = [],
       trace = [E_write 3 (Bytes 0x1000) 0 4 (-1), E_write_packet (Bytes 0x1000) 4 0]\<rparr>)
   \<and> uzfs_read_packet (scripted [2, -1, 3] [] []) 3 (Bytes 0x1000) 4 =
     Some (1, \<lparr>io_script = [], heap_script = [], fd_script = [],
       trace = [E_read 3 (Bytes 0x1000) 0 4 2, E_read 3 (Bytes 0x1000) 2 2 (-1),
                E_read 3 (Bytes 0x1000) 1 3 3, E_read_packet (Bytes 0x1000) 4 1]\<rparr>)"
  by (simp add: uzfs_read_packet_def uzfs_write_packet_def scripted_def emit_def)

subsection \<open>Buffer set-up: \<open>uzfs_ioctl_init\<close>\<close>

lemma malloc_eq_Some:
  "malloc w n = Some (p, w') \<longleftrightarrow>
     (\<exists>rest. heap_script w = p # rest \<and>
        w' = w\<lparr>heap_script := rest, trace := trace w @ [E_malloc n p]\<rparr>)"
  by (auto simp: malloc_def emit_def split: list.splits)

lemma ioctl_init_err_run:
  "ioctl_init_err w cmd zc = Some (r, w', zc') \<Longrightarrow>
     r = -1 \<and> zc' = zc \<and> w' = w\<lparr>trace := trace w @ map E_free (buffers zc)\<rparr>"
  by (auto simp: ioctl_init_err_def uzfs_ioctl_done_def free_def emit_def buffers_def)

lemma alloc_step:
  assumes "(if n \<noteq> 0 then
              do {
                (ptr, w) \<leftarrow> malloc w n;
                if ptr = 0 then ioctl_init_err w cmd zc else k w (upd ptr)
              }
            else k w zc) = Some (r, w', zc')"
  obtains (skip) "n = 0" "k w zc = Some (r, w', zc')"
    | (fail) rest where "n \<noteq> 0" "heap_script w = 0 # rest" "r = -1" "zc' = zc"
        "w' = w\<lparr>heap_script := rest, trace := trace w @ E_malloc n 0 # map E_free (buffers zc)\<rparr>"
    | (ok) p rest where "n \<noteq> 0" "p \<noteq> 0" "heap_script w = p # rest"
        "k (w\<lparr>heap_script := rest, trace := trace w @ [E_malloc n p]\<rparr>) (upd p) = Some (r, w', zc')"
proof (cases "n = 0")
  case True
  with assms show ?thesis by (simp add: skip)
next
  case False
  with assms obtain p rest where heap: "heap_script w = p # rest"
    and rest: "(if p = 0 then ioctl_init_err (w\<lparr>heap_script := rest, trace := trace w @ [E_malloc n p]\<rparr>) cmd zc
         else k (w\<lparr>heap_script := rest, trace := trace w @ [E_malloc n p]\<rparr>) (upd p))
       = Some (r, w', zc')"
    by (auto simp: malloc_eq_Some split: Option.bind_splits)
  show ?thesis
  proof (cases "p = 0")
    case True
    with rest heap False show ?thesis
      by (intro fail [of rest]) (auto dest: ioctl_init_err_run)
  next
    case False
    with rest heap \<open>n \<noteq> 0\<close> show ?thesis
      by (intro ok [of p rest]) auto
  qed
qed

lemma init_run_skip: "init_run w w 0 zc []"
  by (simp add: init_run_def)

lemma init_run_ok:
  assumes "heap_script w = p # rest"
    and "init_run (w\<lparr>heap_script := rest, trace := trace w @ [E_malloc n p]\<rparr>) w' r zc' ms"
  shows "init_run w w' r zc' ((n, p) # ms)"
  using assms by (simp add: init_run_def)

lemma init_run_fail:
  assumes "heap_script w = 0 # rest"
  shows "init_run w (w\<lparr>heap_script := rest, trace := trace w @ E_malloc n 0 # map E_free (buffers zc)\<rparr>)
           (-1) zc [(n, 0)]"
  using assms by (simp add: init_run_def)

lemma allocated_skip: "allocated ms ptrs sizes r \<Longrightarrow> allocated ms (0 # ptrs) (0 # sizes) r"
  by (simp add: allocated_def non_null_def)

lemma allocated_ok:
  "p \<noteq> 0 \<Longrightarrow> n \<noteq> 0 \<Longrightarrow> allocated ms ptrs sizes r \<Longrightarrow>
     allocated ((n, p) # ms) (p # ptrs) (n # sizes) r"
  by (simp add: allocated_def non_null_def)

lemma allocated_fail:
  "n \<noteq> 0 \<Longrightarrow> non_null ptrs = [] \<Longrightarrow> allocated [(n, 0)] (0 # ptrs) (n # sizes) (-1)"
  by (simp add: allocated_def non_null_def)

lemma allocated_none: "allocated [] [] [] r"
  by (simp add: allocated_def non_null_def)

lemma ioctl_init_history_run:
  assumes run: "ioctl_init_history w cmd zc = Some (r, w', zc')" and null: "zc_history zc = 0"
    and hs: "hs = (if his_len cmd \<noteq> 0 then his_len cmd else zc_history_len zc)"
  shows "\<exists>ms. init_run w w' r zc' ms \<and> allocated ms [zc_history zc'] [hs] r \<and>
     zc_nvlist_src zc' = zc_nvlist_src zc \<and> zc_nvlist_dst zc' = zc_nvlist_dst zc \<and>
     zc_nvlist_conf zc' = zc_nvlist_conf zc \<and> (hs = 0 \<longrightarrow> zc_history zc' = 0)"
  using run [unfolded ioctl_init_history_def Let_def, folded hs]
proof (cases rule: alloc_step [where k = "\<lambda>w zc. Some (0, w, zc)"])
  case skip
  with null show ?thesis
    by (intro exI [of _ "[]"]) (auto simp: init_run_skip intro: allocated_skip allocated_none)
next
  case (fail rest)
  with null show ?thesis
    by (intro exI [of _ "[(hs, 0)]"])
      (auto simp: init_run_fail non_null_def intro!: allocated_fail)
next
  case (ok p rest)
  then show ?thesis
    by (intro exI [of _ "[(hs, p)]"])
      (auto intro!: init_run_ok init_run_skip allocated_ok allocated_none)
qed

lemma ioctl_init_conf_run:
  assumes run: "ioctl_init_conf w cmd zc = Some (r, w', zc')"
    and null: "zc_nvlist_conf zc = 0" "zc_history zc = 0"
    and hs: "hs = (if his_len cmd \<noteq> 0 then his_len cmd else zc_history_len zc)"
  shows "\<exists>ms. init_run w w' r zc' ms \<and>
     allocated ms [zc_nvlist_conf zc', zc_history zc'] [zc_nvlist_conf_size zc, hs] r \<and>
     zc_nvlist_src zc' = zc_nvlist_src zc \<and> zc_nvlist_dst zc' = zc_nvlist_dst zc \<and>
     (hs = 0 \<longrightarrow> zc_history zc' = 0)"
  using run [unfolded ioctl_init_conf_def]
proof (cases rule: alloc_step)
  case skip
  from ioctl_init_history_run [OF skip(2) null(2) hs] obtain ms where
    "init_run w w' r zc' ms" "allocated ms [zc_history zc'] [hs] r"
    "zc_nvlist_src zc' = zc_nvlist_src zc" "zc_nvlist_dst zc' = zc_nvlist_dst zc"
    "zc_nvlist_conf zc' = zc_nvlist_conf zc" "hs = 0 \<longrightarrow> zc_history zc' = 0"
    by auto
  with skip(1) null show ?thesis
    by (intro exI [of _ ms]) (simp add: allocated_skip)
next
  case (fail rest)
  with null show ?thesis
    by (intro exI [of _ "[(zc_nvlist_conf_size zc, 0)]"])
      (auto simp: init_run_fail non_null_def intro!: allocated_fail)
next
  case (ok p rest)
  have "hs = (if his_len cmd \<noteq> 0 then his_len cmd
      else zc_history_len (zc\<lparr>zc_nvlist_conf := p\<rparr>))"
    "zc_history (zc\<lparr>zc_nvlist_conf := p\<rparr>) = 0"
    using hs null by simp_all
  from ioctl_init_history_run [OF ok(4) this(2,1)] obtain ms where
    "init_run (w\<lparr>heap_script := rest, trace := trace w @ [E_malloc (zc_nvlist_conf_size zc) p]\<rparr>) w' r zc' ms"
    "allocated ms [zc_history zc'] [hs] r"
    "zc_nvlist_src zc' = zc_nvlist_src zc" "zc_nvlist_dst zc' = zc_nvlist_dst zc"
    "zc_nvlist_conf zc' = p" "hs = 0 \<longrightarrow> zc_history zc' = 0"
    by auto
  with ok show ?thesis
    by (intro exI [of _ "(zc_nvlist_conf_size zc, p) # ms"])
      (auto intro: init_run_ok allocated_ok)
qed

lemma ioctl_init_dst_run:
  assumes run: "ioctl_init_dst w cmd zc = Some (r, w', zc')"
    and null: "zc_nvlist_dst zc = 0" "zc_nvlist_conf zc = 0" "zc_history zc = 0"
    and hs: "hs = (if his_len cmd \<noteq> 0 then his_len cmd else zc_history_len zc)"
  shows "\<exists>ms. init_run w w' r zc' ms \<and>
     allocated ms [zc_nvlist_dst zc', zc_nvlist_conf zc', zc_history zc']
       [zc_nvlist_dst_size zc, zc_nvlist_conf_size zc, hs] r \<and>
     zc_nvlist_src zc' = zc_nvlist_src zc \<and> (hs = 0 \<longrightarrow> zc_history zc' = 0)"
  using run [unfolded ioctl_init_dst_def]
proof (cases rule: alloc_step)
  case skip
  from ioctl_init_conf_run [OF skip(2) null(2,3) hs] obtain ms where
    "init_run w w' r zc' ms"
    "allocated ms [zc_nvlist_conf zc', zc_history zc'] [zc_nvlist_conf_size zc, hs] r"
    "zc_nvlist_src zc' = zc_nvlist_src zc" "zc_nvlist_dst zc' = zc_nvlist_dst zc"
    "hs = 0 \<longrightarrow> zc_history zc' = 0"
    by auto
  with skip(1) null show ?thesis
    by (intro exI [of _ ms]) (simp add: allocated_skip)
next
  case (fail rest)
  with null show ?thesis
    by (intro exI [of _ "[(zc_nvlist_dst_size zc, 0)]"])
      (auto simp: init_run_fail non_null_def intro!: allocated_fail)
next
  case (ok p rest)
  have "hs = (if his_len cmd \<noteq> 0 then his_len cmd
      else zc_history_len (zc\<lparr>zc_nvlist_dst := p\<rparr>))"
    "zc_nvlist_conf (zc\<lparr>zc_nvlist_dst := p\<rparr>) = 0"
    "zc_history (zc\<lparr>zc_nvlist_dst := p\<rparr>) = 0"
    using hs null by simp_all
  from ioctl_init_conf_run [OF ok(4) this(2,3,1)] obtain ms where
    "init_run (w\<lparr>heap_script := rest, trace := trace w @ [E_malloc (zc_nvlist_dst_size zc) p]\<rparr>) w' r zc' ms"
    "allocated ms [zc_nvlist_conf zc', zc_history zc'] [zc_nvlist_conf_size zc, hs] r"
    "zc_nvlist_src zc' = zc_nvlist_src zc" "zc_nvlist_dst zc' = p"
    "hs = 0 \<longrightarrow> zc_history zc' = 0"
    by auto
  with ok show ?thesis
    by (intro exI [of _ "(zc_nvlist_dst_size zc, p) # ms"])
      (auto intro: init_run_ok allocated_ok)
qed

lemma uzfs_ioctl_init_run:
  assumes run: "uzfs_ioctl_init w cmd zc = Some (r, w', zc')"
    and hs: "hs = (if his_len cmd \<noteq> 0 then his_len cmd else zc_history_len zc)"
  shows "\<exists>ms. init_run w w' r zc' ms \<and>
     allocated ms (buffers zc')
       [zc_nvlist_src_size zc, zc_nvlist_dst_size zc, zc_nvlist_conf_size zc, hs] r \<and>
     (hs = 0 \<longrightarrow> zc_history zc' = 0)"
  using run [unfolded uzfs_ioctl_init_def Let_def]
proof (cases rule: alloc_step)
  case skip
  have "hs = (if his_len cmd \<noteq> 0 then his_len cmd
      else zc_history_len (zc\<lparr>zc_nvlist_src := 0, zc_nvlist_dst := 0, zc_nvlist_conf := 0,
        zc_history := 0\<rparr>))"
    using hs by simp
  from ioctl_init_dst_run [OF skip(2) _ _ _ this] obtain ms where
    "init_run w w' r zc' ms"
    "allocated ms [zc_nvlist_dst zc', zc_nvlist_conf zc', zc_history zc']
       [zc_nvlist_dst_size zc, zc_nvlist_conf_size zc, hs] r"
    "zc_nvlist_src zc' = 0" "hs = 0 \<longrightarrow> zc_history zc' = 0"
    by auto
  with skip(1) show ?thesis
    by (intro exI [of _ ms]) (simp add: buffers_def allocated_skip)
next
  case (fail rest)
  then show ?thesis
    by (intro exI [of _ "[(zc_nvlist_src_size zc, 0)]"])
      (auto simp: init_run_def non_null_def buffers_def intro!: allocated_fail)
next
  case (ok p rest)
  have "hs = (if his_len cmd \<noteq> 0 then his_len cmd
      else zc_history_len (zc\<lparr>zc_nvlist_src := 0, zc_nvlist_dst := 0, zc_nvlist_conf := 0,
        zc_history := 0, zc_nvlist_src := p\<rparr>))"
    using hs by simp
  from ioctl_init_dst_run [OF ok(4) _ _ _ this] obtain ms where
    "init_run (w\<lparr>heap_script := rest, trace := trace w @ [E_malloc (zc_nvlist_src_size zc) p]\<rparr>) w' r zc' ms"
    "allocated ms [zc_nvlist_dst zc', zc_nvlist_conf zc', zc_history zc']
       [zc_nvlist_dst_size zc, zc_nvlist_conf_size zc, hs] r"
    "zc_nvlist_src zc' = p" "hs = 0 \<longrightarrow> zc_history zc' = 0"
    by auto
  with ok show ?thesis
    by (intro exI [of _ "(zc_nvlist_src_size zc, p) # ms"])
      (auto simp: buffers_def intro: init_run_ok allocated_ok)
qed


lemma calls_of_mallocs [simp]:
  "malloc_calls (map (\<lambda>(n, p). E_malloc n p) ms) = ms"
  "free_calls (map (\<lambda>(n, p). E_malloc n p) ms) = []"
  by (induction ms) auto

lemma calls_of_frees [simp]:
  "free_calls (map E_free ps) = ps"
  "malloc_calls (map E_free ps) = []"
  by (induction ps) auto

lemma init_run_events:
  "init_run w w' r zc' ms \<Longrightarrow>
     new_events w w' = map (\<lambda>(n, p). E_malloc n p) ms
        @ (if r = 0 then [] else map E_free (buffers zc'))"
  by (simp add: init_run_def new_events_def)

lemmas ioctl_init_defs = uzfs_ioctl_init_def ioctl_init_dst_def ioctl_init_conf_def
  ioctl_init_history_def ioctl_init_err_def uzfs_ioctl_done_def free_def malloc_def emit_def

lemma malloc_returns:
  "heap_script w \<noteq> [] \<Longrightarrow> \<exists>p w'. malloc w n = Some (p, w') \<and> heap_script w' = tl (heap_script w)"
  by (cases "heap_script w") (simp_all add: malloc_def emit_def)

lemma ioctl_init_history_returns:
  assumes "1 \<le> length (heap_script w)"
  shows "ioctl_init_history w cmd zc \<noteq> None"
proof -
  from assms have "heap_script w \<noteq> []" by auto
  from malloc_returns [OF this] obtain p w1 where
    "malloc w (if his_len cmd \<noteq> 0 then his_len cmd else zc_history_len zc) = Some (p, w1)"
    by blast
  then show ?thesis
    by (simp add: ioctl_init_history_def ioctl_init_err_def Let_def)
qed

lemma ioctl_init_conf_returns:
  assumes "2 \<le> length (heap_script w)"
  shows "ioctl_init_conf w cmd zc \<noteq> None"
proof (cases "zc_nvlist_conf_size zc = 0")
  case True
  with assms ioctl_init_history_returns [of w cmd zc] show ?thesis
    by (simp add: ioctl_init_conf_def)
next
  case False
  from assms have "heap_script w \<noteq> []" by auto
  from malloc_returns [OF this] obtain p w1 where
    m: "malloc w (zc_nvlist_conf_size zc) = Some (p, w1)" and "heap_script w1 = tl (heap_script w)"
    by blast
  with assms have "1 \<le> length (heap_script w1)" by simp
  from ioctl_init_history_returns [OF this] False m show ?thesis
    by (simp add: ioctl_init_conf_def ioctl_init_err_def)
qed

lemma ioctl_init_dst_returns:
  assumes "3 \<le> length (heap_script w)"
  shows "ioctl_init_dst w cmd zc \<noteq> None"
proof (cases "zc_nvlist_dst_size zc = 0")
  case True
  with assms ioctl_init_conf_returns [of w cmd zc] show ?thesis
    by (simp add: ioctl_init_dst_def)
next
  case False
  from assms have "heap_script w \<noteq> []" by auto
  from malloc_returns [OF this] obtain p w1 where
    m: "malloc w (zc_nvlist_dst_size zc) = Some (p, w1)" and "heap_script w1 = tl (heap_script w)"
    by blast
  with assms have "2 \<le> length (heap_script w1)" by simp
  from ioctl_init_conf_returns [OF this] False m show ?thesis
    by (simp add: ioctl_init_dst_def ioctl_init_err_def)
qed

lemma uzfs_ioctl_init_returns:
  assumes "4 \<le> length (heap_script w)"
  shows "uzfs_ioctl_init w cmd zc \<noteq> None"
proof (cases "zc_nvlist_src_size zc = 0")
  case True
  with assms ioctl_init_dst_returns [of w] show ?thesis
    by (simp add: uzfs_ioctl_init_def Let_def)
next
  case False
  from assms have "heap_script w \<noteq> []" by auto
  from malloc_returns [OF this] obtain p w1 where
    m: "malloc w (zc_nvlist_src_size zc) = Some (p, w1)" and "heap_script w1 = tl (heap_script w)"
    by blast
  with assms have "3 \<le> length (heap_script w1)" by simp
  from ioctl_init_dst_returns [OF this] False m show ?thesis
    by (simp add: uzfs_ioctl_init_def ioctl_init_err_def Let_def)
qed

text \<open>
  C5. When an allocation in \<open>uzfs_ioctl_init\<close> fails, every buffer allocated before
  it for this context is released before the call returns failure, no buffer is
  released twice, and nothing allocated is left over: the call either yields a fully
  populated context or releases everything and fails.

  The call returns whenever the allocator answers its (at most four) requests. For
  every run that returns: the result is 0 or -1. With 0 nothing was released, the
  results of the allocations are exactly the non-null locations of the descriptor, and
  a location is non-null exactly when a size was declared for it. With -1 all
  allocations come before all releases in the trace, and the non-null pointers released
  are the non-null pointers allocated, in the same order, each once. When the allocator
  never hands out the same buffer twice, no buffer is released twice.
\<close>

theorem uzfs_ioctl_init_all_or_nothing:
  "(4 \<le> length (heap_script w) \<longrightarrow> uzfs_ioctl_init w cmd zc \<noteq> None) \<and>
   (uzfs_ioctl_init w cmd zc = Some (r, w', zc') \<longrightarrow>
     (r = 0 \<or> r = -1) \<and>
       (r = 0 \<longrightarrow>
          free_calls (new_events w w') = [] \<and>
          map snd (malloc_calls (new_events w w')) = non_null (buffers zc') \<and>
          (zc_nvlist_src zc' \<noteq> 0 \<longleftrightarrow> zc_nvlist_src_size zc \<noteq> 0) \<and>
          (zc_nvlist_dst zc' \<noteq> 0 \<longleftrightarrow> zc_nvlist_dst_size zc \<noteq> 0) \<and>
          (zc_nvlist_conf zc' \<noteq> 0 \<longleftrightarrow> zc_nvlist_conf_size zc \<noteq> 0) \<and>
          (zc_history zc' \<noteq> 0 \<longleftrightarrow> his_len cmd \<noteq> 0 \<or> zc_history_len zc \<noteq> 0)) \<and>
       (r = -1 \<longrightarrow>
          new_events w w' = map (\<lambda>(n, p). E_malloc n p) (malloc_calls (new_events w w'))
             @ map E_free (free_calls (new_events w w')) \<and>
          non_null (free_calls (new_events w w')) = non_null (map snd (malloc_calls (new_events w w')))) \<and>
       (distinct (non_null (heap_script w)) \<longrightarrow> distinct (non_null (free_calls (new_events w w')))))"
proof -
  have "(r = 0 \<or> r = -1) \<and>
    (r = 0 \<longrightarrow>
       free_calls (new_events w w') = [] \<and>
       map snd (malloc_calls (new_events w w')) = non_null (buffers zc') \<and>
       (zc_nvlist_src zc' \<noteq> 0 \<longleftrightarrow> zc_nvlist_src_size zc \<noteq> 0) \<and>
       (zc_nvlist_dst zc' \<noteq> 0 \<longleftrightarrow> zc_nvlist_dst_size zc \<noteq> 0) \<and>
       (zc_nvlist_conf zc' \<noteq> 0 \<longleftrightarrow> zc_nvlist_conf_size zc \<noteq> 0) \<and>
       (zc_history zc' \<noteq> 0 \<longleftrightarrow> his_len cmd \<noteq> 0 \<or> zc_history_len zc \<noteq> 0)) \<and>
    (r = -1 \<longrightarrow>
       new_events w w' = map (\<lambda>(n, p). E_malloc n p) (malloc_calls (new_events w w'))
          @ map E_free (free_calls (new_events w w')) \<and>
       non_null (free_calls (new_events w w')) = non_null (map snd (malloc_calls (new_events w w')))) \<and>
    (distinct (non_null (heap_script w)) \<longrightarrow> distinct (non_null (free_calls (new_events w w'))))"
    if assms: "uzfs_ioctl_init w cmd zc = Some (r, w', zc')"
  proof -
    define hs where "hs = (if his_len cmd \<noteq> 0 then his_len cmd else zc_history_len zc)"
    from uzfs_ioctl_init_run [OF assms hs_def] obtain ms where
      run: "init_run w w' r zc' ms" and
      al: "allocated ms (buffers zc')
         [zc_nvlist_src_size zc, zc_nvlist_dst_size zc, zc_nvlist_conf_size zc, hs] r"
      by auto
    note evs = init_run_events [OF run]
    from run have r: "r = 0 \<or> r = -1" and heap: "heap_script w = map snd ms @ heap_script w'"
      by (simp_all add: init_run_def)
    have ok: "free_calls (new_events w w') = [] \<and>
         map snd (malloc_calls (new_events w w')) = non_null (buffers zc') \<and>
         (zc_nvlist_src zc' \<noteq> 0 \<longleftrightarrow> zc_nvlist_src_size zc \<noteq> 0) \<and>
         (zc_nvlist_dst zc' \<noteq> 0 \<longleftrightarrow> zc_nvlist_dst_size zc \<noteq> 0) \<and>
         (zc_nvlist_conf zc' \<noteq> 0 \<longleftrightarrow> zc_nvlist_conf_size zc \<noteq> 0) \<and>
         (zc_history zc' \<noteq> 0 \<longleftrightarrow> his_len cmd \<noteq> 0 \<or> zc_history_len zc \<noteq> 0)" if "r = 0"
      using al that by (simp add: evs allocated_def buffers_def hs_def)
    have fail: "new_events w w' = map (\<lambda>(n, p). E_malloc n p) (malloc_calls (new_events w w'))
            @ map E_free (free_calls (new_events w w')) \<and>
         non_null (free_calls (new_events w w')) = non_null (map snd (malloc_calls (new_events w w')))"
      if "r = -1"
      using al that by (simp add: evs allocated_def)
    have "distinct (non_null (free_calls (new_events w w')))" if "distinct (non_null (heap_script w))"
    proof -
      from that heap have "distinct (non_null (map snd ms))"
        by (simp add: non_null_def)
      with al show ?thesis
        by (simp add: evs allocated_def non_null_def)
    qed
    with r ok fail show ?thesis by blast
  qed
  with uzfs_ioctl_init_returns [of w cmd zc] show ?thesis
    by blast
qed

text \<open>
  The configuration buffer cannot be allocated: the input and output buffers, allocated
  before, are released, and the call returns -1.
\<close>

theorem uzfs_ioctl_init_all_or_nothing_witness:
  "uzfs_ioctl_init (scripted [] [0x1000, 0x2000, 0, 0x4000] []) sample_cmd sample_zc =
     Some (-1,
       \<lparr>io_script = [], heap_script = [0x4000], fd_script = [],
        trace = [E_malloc 5 0x1000, E_malloc 6 0x2000, E_malloc 7 0,
                 E_free 0x1000, E_free 0x2000, E_free 0, E_free 0]\<rparr>,
       sample_zc\<lparr>zc_nvlist_src := 0x1000, zc_nvlist_dst := 0x2000, zc_nvlist_conf := 0,
         zc_history := 0\<rparr>)
   \<and> distinct (non_null (heap_script (scripted [] [0x1000, 0x2000, 0, 0x4000] [])))
   \<and> non_null (free_calls [E_malloc 5 0x1000, E_malloc 6 0x2000, E_malloc 7 0,
                 E_free 0x1000, E_free 0x2000, E_free 0, E_free 0]) = [0x1000, 0x2000]
   \<and> non_null (map snd (malloc_calls [E_malloc 5 0x1000, E_malloc 6 0x2000, E_malloc 7 0,
                 E_free 0x1000, E_free 0x2000, E_free 0, E_free 0])) = [0x1000, 0x2000]"
proof -
  have run: "uzfs_ioctl_init (scripted [] [0x1000, 0x2000, 0, 0x4000] []) sample_cmd sample_zc =
     Some (-1,
       \<lparr>io_script = [], heap_script = [0x4000], fd_script = [],
        trace = [E_malloc 5 0x1000, E_malloc 6 0x2000, E_malloc 7 0,
                 E_free 0x1000, E_free 0x2000, E_free 0, E_free 0]\<rparr>,
       sample_zc\<lparr>zc_nvlist_src := 0x1000, zc_nvlist_dst := 0x2000, zc_nvlist_conf := 0,
         zc_history := 0\<rparr>)"
    by (simp add: ioctl_init_defs scripted_def sample_zc_def sample_cmd_def)
  have heap: "distinct (non_null (heap_script (scripted [] [0x1000, 0x2000, 0, 0x4000] [])))"
    by (simp add: scripted_def non_null_def)
  from uzfs_ioctl_init_all_or_nothing [THEN conjunct2, THEN mp, OF run] heap run show ?thesis
    by (simp add: new_events_def scripted_def non_null_def)
qed

text \<open>
  C4. The claim: when the envelope's \<open>his_len\<close> and the descriptor's
  \<open>zc_history_len\<close> are both non-zero, the history buffer is allocated with the larger
  of the two as its size; when both are zero, no history buffer is allocated and the
  reference stays null.

  The code computes \<open>his_size = (cmd->his_len ? cmd->his_len : zc->zc_history_len)\<close>:
  the envelope's length when it is not zero, whichever of the two is larger, and the
  descriptor's length otherwise. As amended: the sizes requested from the allocator are
  the non-zero ones among input size, output size, configuration size and \<open>his_size\<close>,
  in this order (a run that fails requests a prefix of them); on success with
  \<open>his_size\<close> non-zero the last allocation has size \<open>his_size\<close> and its result is the
  history reference; and with \<open>his_size\<close> zero, that is with both lengths zero, the
  history reference is null.
\<close>

theorem uzfs_ioctl_init_history_size:
  assumes "uzfs_ioctl_init w cmd zc = Some (r, w', zc')"
    and "hs = (if his_len cmd \<noteq> 0 then his_len cmd else zc_history_len zc)"
  shows "prefix (map fst (malloc_calls (new_events w w')))
       (non_null [zc_nvlist_src_size zc, zc_nvlist_dst_size zc, zc_nvlist_conf_size zc, hs]) \<and>
    (r = 0 \<longrightarrow> map fst (malloc_calls (new_events w w'))
       = non_null [zc_nvlist_src_size zc, zc_nvlist_dst_size zc, zc_nvlist_conf_size zc, hs]) \<and>
    (r = 0 \<and> hs \<noteq> 0 \<longrightarrow> malloc_calls (new_events w w') \<noteq> [] \<and>
       last (malloc_calls (new_events w w')) = (hs, zc_history zc') \<and> zc_history zc' \<noteq> 0) \<and>
    (hs = 0 \<longrightarrow> zc_history zc' = 0)"
proof -
  from uzfs_ioctl_init_run [OF assms] obtain ms where
    run: "init_run w w' r zc' ms" and
    al: "allocated ms (buffers zc')
       [zc_nvlist_src_size zc, zc_nvlist_dst_size zc, zc_nvlist_conf_size zc, hs] r" and
    null: "hs = 0 \<longrightarrow> zc_history zc' = 0"
    by auto
  note evs = init_run_events [OF run]
  have calls: "malloc_calls (new_events w w') = ms"
    by (simp add: evs)
  have "ms \<noteq> [] \<and> last ms = (hs, zc_history zc') \<and> zc_history zc' \<noteq> 0" if "r = 0" "hs \<noteq> 0"
  proof -
    from al that have fst: "map fst ms = non_null [zc_nvlist_src_size zc, zc_nvlist_dst_size zc,
        zc_nvlist_conf_size zc, hs]" and snd: "map snd ms = non_null (buffers zc')"
      and h: "zc_history zc' \<noteq> 0"
      by (simp_all add: allocated_def buffers_def)
    have snoc: "non_null [a, b, c, h] = non_null [a, b, c] @ [h]" if "h \<noteq> 0" for a b c h
      using that by (simp add: non_null_def)
    from fst that have ne: "ms \<noteq> []" and "last (map fst ms) = hs"
      by (auto simp: snoc)
    moreover from snd h have "last (map snd ms) = zc_history zc'"
      by (simp add: buffers_def snoc)
    ultimately show ?thesis using h
      by (simp add: last_map prod_eq_iff)
  qed
  with al null show ?thesis
    by (simp add: calls allocated_def)
qed


text \<open>
  With \<open>his_len = 3\<close> and \<open>zc_history_len = 10\<close> the history buffer is allocated with 3
  bytes, not with the larger length 10.
\<close>

theorem uzfs_ioctl_init_history_not_larger:
  "his_len sample_cmd = 3 \<and> zc_history_len sample_zc = 10
   \<and> max (his_len sample_cmd) (zc_history_len sample_zc) = 10
   \<and> (3 :: 64 word) \<noteq> max (his_len sample_cmd) (zc_history_len sample_zc)
   \<and> map_option (\<lambda>(r, w', zc'). (r, malloc_calls (trace w'), zc_history zc'))
       (uzfs_ioctl_init (scripted [] [0x1000, 0x2000, 0x3000, 0x4000] []) sample_cmd sample_zc)
     = Some (0, [(5, 0x1000), (6, 0x2000), (7, 0x3000), (3, 0x4000)], 0x4000)"
  by (simp add: ioctl_init_defs scripted_def sample_zc_def sample_cmd_def)

theorem uzfs_ioctl_init_history_size_witness:
  "uzfs_ioctl_init (scripted [] [0x1000, 0x2000, 0x3000, 0x4000] []) sample_cmd sample_zc =
     Some (0,
       \<lparr>io_script = [], heap_script = [], fd_script = [],
        trace = [E_malloc 5 0x1000, E_malloc 6 0x2000, E_malloc 7 0x3000, E_malloc 3 0x4000]\<rparr>,
       sample_zc\<lparr>zc_nvlist_src := 0x1000, zc_nvlist_dst := 0x2000, zc_nvlist_conf := 0x3000,
         zc_history := 0x4000\<rparr>)
   \<and> last (malloc_calls [E_malloc 5 0x1000, E_malloc 6 0x2000, E_malloc 7 0x3000,
         E_malloc 3 0x4000]) = (his_len sample_cmd, 0x4000)"
proof -
  have run: "uzfs_ioctl_init (scripted [] [0x1000, 0x2000, 0x3000, 0x4000] []) sample_cmd sample_zc =
     Some (0,
       \<lparr>io_script = [], heap_script = [], fd_script = [],
        trace = [E_malloc 5 0x1000, E_malloc 6 0x2000, E_malloc 7 0x3000, E_malloc 3 0x4000]\<rparr>,
       sample_zc\<lparr>zc_nvlist_src := 0x1000, zc_nvlist_dst := 0x2000, zc_nvlist_conf := 0x3000,
         zc_history := 0x4000\<rparr>)"
    by (simp add: ioctl_init_defs scripted_def sample_zc_def sample_cmd_def)
  from uzfs_ioctl_init_history_size [OF run refl] run show ?thesis
    by (simp add: new_events_def scripted_def sample_cmd_def sample_zc_def)
qed

subsection \<open>The reply of the server: \<open>uzfs_send_response\<close>\<close>







subsection \<open>The response on the client: \<open>uzfs_recv_response\<close>\<close>

lemmas recv_response_paths = uzfs_recv_response_def Let_def








lemma uzfs_recv_response_ignores_sizes:
  "map_option (\<lambda>(ret, w', zc'). (ret, w'))
     (uzfs_recv_response K w fd (zc\<lparr>zc_history_len := a, zc_nvlist_dst_size := b\<rparr>) ucmd uzc)
   = map_option (\<lambda>(ret, w', zc'). (ret, w')) (uzfs_recv_response K w fd zc ucmd uzc)"
  by (simp add: uzfs_recv_response_def Let_def split: Option.bind_split prod.split)

text \<open>
  C10. The byte counts with which \<open>uzfs_recv_response\<close> reads the history and the
  output into the caller's buffers are the sizes of the peer's descriptor image
  (\<open>zc_history_len\<close>, \<open>zc_nvlist_dst_size\<close>), not the sizes the caller declared: the
  peer chooses how many bytes are written into the caller's buffers.

  For every run that returns: the calls of \<open>uzfs_read_packet\<close> are, in order, the
  header, the image, the history into the caller's history buffer with the peer's
  \<open>zc_history_len\<close> (when the caller's reference and that length are not zero), and
  the output into the caller's output buffer with the peer's \<open>zc_nvlist_dst_size\<close>
  (when the peer's flag is set); a run that fails makes a prefix of these calls. Every
  call of \<open>read\<close> into a buffer asks to fill it up to one of these two sizes. And the
  result and the trace are the same whatever \<open>zc_history_len\<close> and
  \<open>zc_nvlist_dst_size\<close> the caller's descriptor held before the call.
\<close>

theorem uzfs_recv_response_sizes_from_peer:
  assumes "uzfs_recv_response K w fd zc ucmd uzc = Some (ret, w', zc')"
  shows "prefix (map (\<lambda>(b, n, r). (b, n)) (read_packets (new_events w w')))
       ([(Envelope ucmd, sizeof_uzfs_ioctl_t K), (Descriptor uzc, sizeof_zfs_cmd_t K)]
        @ (if zc_history zc \<noteq> 0 \<and> zc_history_len uzc \<noteq> 0
           then [(Bytes (zc_history zc), zc_history_len uzc)] else [])
        @ (if zc_nvlist_dst_filled uzc \<noteq> 0
           then [(Bytes (zc_nvlist_dst zc), zc_nvlist_dst_size uzc)] else [])) \<and>
     (list_all (\<lambda>(b, n, r). 0 < r) (read_packets (new_events w w')) \<longrightarrow>
        map (\<lambda>(b, n, r). (b, n)) (read_packets (new_events w w')) =
          [(Envelope ucmd, sizeof_uzfs_ioctl_t K), (Descriptor uzc, sizeof_zfs_cmd_t K)]
          @ (if zc_history zc \<noteq> 0 \<and> zc_history_len uzc \<noteq> 0
             then [(Bytes (zc_history zc), zc_history_len uzc)] else [])
          @ (if zc_nvlist_dst_filled uzc \<noteq> 0
             then [(Bytes (zc_nvlist_dst zc), zc_nvlist_dst_size uzc)] else [])) \<and>
     set (byte_reads (new_events w w')) \<subseteq>
       {(zc_history zc, zc_history_len uzc), (zc_nvlist_dst zc, zc_nvlist_dst_size uzc)} \<and>
     map_option (\<lambda>(ret, w', zc'). (ret, w'))
         (uzfs_recv_response K w fd (zc\<lparr>zc_history_len := a, zc_nvlist_dst_size := b\<rparr>) ucmd uzc)
       = Some (ret, w')"
proof -
  have 1: "prefix (map (\<lambda>(b, n, r). (b, n)) (read_packets (new_events w w')))
       ([(Envelope ucmd, sizeof_uzfs_ioctl_t K), (Descriptor uzc, sizeof_zfs_cmd_t K)]
        @ (if zc_history zc \<noteq> 0 \<and> zc_history_len uzc \<noteq> 0
           then [(Bytes (zc_history zc), zc_history_len uzc)] else [])
        @ (if zc_nvlist_dst_filled uzc \<noteq> 0
           then [(Bytes (zc_nvlist_dst zc), zc_nvlist_dst_size uzc)] else []))"
    using assms
    apply (simp add: recv_response_paths split: Option.bind_splits if_splits prod.splits)
    apply (elim conjE exE uzfs_read_packetE; auto simp: new_events_def)+
    done
  have 2: "list_all (\<lambda>(b, n, r). 0 < r) (read_packets (new_events w w')) \<longrightarrow>
        map (\<lambda>(b, n, r). (b, n)) (read_packets (new_events w w')) =
          [(Envelope ucmd, sizeof_uzfs_ioctl_t K), (Descriptor uzc, sizeof_zfs_cmd_t K)]
          @ (if zc_history zc \<noteq> 0 \<and> zc_history_len uzc \<noteq> 0
             then [(Bytes (zc_history zc), zc_history_len uzc)] else [])
          @ (if zc_nvlist_dst_filled uzc \<noteq> 0
             then [(Bytes (zc_nvlist_dst zc), zc_nvlist_dst_size uzc)] else [])"
    using assms
    apply (simp add: recv_response_paths split: Option.bind_splits if_splits prod.splits)
    apply (elim conjE exE uzfs_read_packetE; auto simp: new_events_def)+
    done
  have 3: "set (byte_reads (new_events w w')) \<subseteq>
       {(zc_history zc, zc_history_len uzc), (zc_nvlist_dst zc, zc_nvlist_dst_size uzc)}"
    using assms
    apply (simp add: recv_response_paths split: Option.bind_splits if_splits prod.splits)
    apply (elim conjE exE uzfs_read_packetE;
        (drule read_at_byte_reads_bytes)?; (drule read_at_byte_reads_bytes)?;
        auto simp: new_events_def)+
    done
  have 4: "map_option (\<lambda>(ret, w', zc'). (ret, w'))
         (uzfs_recv_response K w fd (zc\<lparr>zc_history_len := a, zc_nvlist_dst_size := b\<rparr>) ucmd uzc)
       = Some (ret, w')"
    using assms by (simp add: uzfs_recv_response_ignores_sizes)
  from 1 2 3 4 show ?thesis by blast
qed

text \<open>
  The caller declared 10 bytes of history and 6 of output; the reads ask for the 4 and 6
  bytes of the peer's image.
\<close>

theorem uzfs_recv_response_sizes_from_peer_witness:
  "map_option (\<lambda>(ret, w', zc'). map (\<lambda>(b, n, r). (b, n)) (read_packets (trace w')))
     (uzfs_recv_response sample_abi (scripted [32, 13744, 4, 6] [] []) 3 sample_zc
        sample_reply_cmd sample_reply)
   = Some [(Envelope sample_reply_cmd, 32), (Descriptor sample_reply, 13744),
       (Bytes (zc_history sample_zc), zc_history_len sample_reply),
       (Bytes (zc_nvlist_dst sample_zc), zc_nvlist_dst_size sample_reply)]"
proof -
  obtain ret w' zc' where run:
    "uzfs_recv_response sample_abi (scripted [32, 13744, 4, 6] [] []) 3 sample_zc
        sample_reply_cmd sample_reply = Some (ret, w', zc')"
    and tr: "list_all (\<lambda>(b, n, r). 0 < r) (read_packets (trace w'))"
    by (simp add: uzfs_recv_response_def run_defs)
  from tr have "list_all (\<lambda>(b, n, r). 0 < r)
      (read_packets (new_events (scripted [32, 13744, 4, 6] [] []) w'))"
    by (simp add: new_events_def scripted_def)
  with uzfs_recv_response_sizes_from_peer [OF run]
  have "map (\<lambda>(b, n, r). (b, n)) (read_packets (new_events (scripted [32, 13744, 4, 6] [] []) w')) =
          [(Envelope sample_reply_cmd, sizeof_uzfs_ioctl_t sample_abi),
           (Descriptor sample_reply, sizeof_zfs_cmd_t sample_abi)]
          @ (if zc_history sample_zc \<noteq> 0 \<and> zc_history_len sample_reply \<noteq> 0
             then [(Bytes (zc_history sample_zc), zc_history_len sample_reply)] else [])
          @ (if zc_nvlist_dst_filled sample_reply \<noteq> 0
             then [(Bytes (zc_nvlist_dst sample_zc), zc_nvlist_dst_size sample_reply)] else [])"
    by blast
  then have "map (\<lambda>(b, n, r). (b, n)) (read_packets (trace w')) =
       [(Envelope sample_reply_cmd, 32), (Descriptor sample_reply, 13744),
       (Bytes (zc_history sample_zc), zc_history_len sample_reply),
       (Bytes (zc_nvlist_dst sample_zc), zc_nvlist_dst_size sample_reply)]"
    by (simp add: new_events_def scripted_def sample_abi_def sample_zc_def sample_reply_def)
  with run show ?thesis by simp
qed


subsection \<open>The request of the client: \<open>uzfs_send_ioctl\<close>\<close>

lemma strlen_from_c_string:
  "c_string mem (s + n) cs \<Longrightarrow> strlen_from mem s n = Some (n + of_nat (length cs))"
proof (induction cs arbitrary: n)
  case Nil
  then show ?case by (subst strlen_from.simps) simp
next
  case (Cons c cs)
  from Cons.prems have "c_string mem (s + (n + 1)) cs" and "mem (s + n) \<noteq> 0"
    by (simp_all add: add.assoc)
  with Cons.IH [of "n + 1"] show ?case
    by (subst strlen_from.simps) (simp add: add.assoc)
qed

lemma strlen_c_string: "c_string mem s cs \<Longrightarrow> strlen mem s = Some (of_nat (length cs))"
  using strlen_from_c_string [of mem s 0 cs] by (simp add: strlen_def)

lemma do_sendfdE:
  assumes "do_sendfd w fd c = Some (r, w')"
  obtains "trace w' = trace w @ [E_sendfd fd c r]" "io_script w' = io_script w"
    "heap_script w' = heap_script w"
  using assms by (auto simp: do_sendfd_def emit_def split: list.splits)

lemma is_io_write_packets [simp]: "list_all is_io evs \<Longrightarrow> write_packets evs = []"
  by simp

lemma uzfs_send_ioctl_envelope:
  assumes "uzfs_send_ioctl K mem w fd request zc = Some (r, w')"
  shows "\<exists>n r1 rest.
     (if zc_history_len zc = 0 \<and> zc_history zc \<noteq> 0
      then strlen mem (zc_history zc) = Some n else n = 0) \<and>
     write_packets (new_events w w') =
       (Envelope \<lparr>packet_size = sizeof_uzfs_ioctl_t K + sizeof_zfs_cmd_t K
                     + zc_nvlist_src_size zc + zc_nvlist_conf_size zc + n,
                  ioc_num = request, his_len = n, ioc_ret = 0\<rparr>,
        sizeof_uzfs_ioctl_t K, r1) # rest"
  using assms
  apply (simp add: uzfs_send_ioctl_def Let_def split: Option.bind_splits if_splits prod.splits)
  apply (elim conjE exE uzfs_write_packetE do_sendfdE; clarsimp simp: new_events_def)+
  done


lemma sample_mem_string:
  "c_string sample_mem (zc_history sample_zc) [0x61, 0x62, 0x63]"
  by (simp add: sample_mem_def sample_zc_def)

lemma sample_mem_strlen: "strlen sample_mem 0x7f0000004000 = Some 3"
  using strlen_c_string [OF sample_mem_string] by (simp add: sample_zc_def)

text \<open>
  C7. For a descriptor that declares history length zero (\<open>zc_history_len = 0\<close>) but
  carries a non-null history reference to a NUL-terminated string of N characters,
  \<open>uzfs_send_ioctl\<close> sends the request with the envelope's \<open>his_len\<close> equal to N;
  when \<open>zc_history_len\<close> is not zero, the envelope's history length is not computed
  from the string.

  For every run that returns, the first thing written is the envelope, and its
  \<open>his_len\<close> is the length of the string in the first case (as a 64-bit number, which
  is N itself for every N below \<open>2 ^ 64\<close>), and stays 0, the value of the
  initialiser, when \<open>zc_history_len\<close> is not zero. On a NUL-terminated string
  \<open>strlen\<close> does return (lemma \<open>strlen_c_string\<close>).
\<close>

theorem uzfs_send_ioctl_history_length:
  assumes "uzfs_send_ioctl K mem w fd request zc = Some (r, w')"
  shows "\<exists>cmd r1 rest.
     write_packets (new_events w w') = (Envelope cmd, sizeof_uzfs_ioctl_t K, r1) # rest \<and>
     (zc_history_len zc = 0 \<and> zc_history zc \<noteq> 0 \<and> c_string mem (zc_history zc) s \<longrightarrow>
        his_len cmd = of_nat (length s) \<and>
        (length s < 2 ^ 64 \<longrightarrow> unat (his_len cmd) = length s)) \<and>
     (zc_history_len zc \<noteq> 0 \<longrightarrow> his_len cmd = 0)"
proof -
  from uzfs_send_ioctl_envelope [OF assms] obtain n r1 rest where
    n: "if zc_history_len zc = 0 \<and> zc_history zc \<noteq> 0
        then strlen mem (zc_history zc) = Some n else n = 0" and
    sent: "write_packets (new_events w w') =
       (Envelope \<lparr>packet_size = sizeof_uzfs_ioctl_t K + sizeof_zfs_cmd_t K
                     + zc_nvlist_src_size zc + zc_nvlist_conf_size zc + n,
                  ioc_num = request, his_len = n, ioc_ret = 0\<rparr>,
        sizeof_uzfs_ioctl_t K, r1) # rest"
    by blast
  have "n = of_nat (length s) \<and> (length s < 2 ^ 64 \<longrightarrow> unat n = length s)"
    if "zc_history_len zc = 0" "zc_history zc \<noteq> 0" "c_string mem (zc_history zc) s"
  proof -
    from n that strlen_c_string [OF that(3)] have "n = of_nat (length s)" by simp
    then show ?thesis by (simp add: unat_of_nat)
  qed
  moreover from n have "n = 0" if "zc_history_len zc \<noteq> 0"
    using that by simp
  ultimately show ?thesis using sent by auto
qed

text \<open>
  The history reference points to \<open>abc\<close> and the declared length is 0: the envelope
  goes out with \<open>his_len = 3\<close>.
\<close>

theorem uzfs_send_ioctl_history_length_witness:
  "map_option (\<lambda>(r, w'). (r, map fst (take 1 (write_packets (trace w')))))
     (uzfs_send_ioctl sample_abi sample_mem (scripted [32, 13744, 5, 7, 3] [] []) 3 0x5a04
        (sample_zc\<lparr>zc_history_len := 0\<rparr>))
   = Some (0, [Envelope \<lparr>packet_size = 13791, ioc_num = 0x5a04, his_len = 3, ioc_ret = 0\<rparr>])
   \<and> c_string sample_mem (zc_history sample_zc) [0x61, 0x62, 0x63]"
proof -
  obtain w' where run:
    "uzfs_send_ioctl sample_abi sample_mem (scripted [32, 13744, 5, 7, 3] [] []) 3 0x5a04
        (sample_zc\<lparr>zc_history_len := 0\<rparr>) = Some (0, w')"
    and tr: "map fst (take 1 (write_packets (trace w'))) =
      [Envelope \<lparr>packet_size = 13791, ioc_num = 0x5a04, his_len = 3, ioc_ret = 0\<rparr>]"
    by (simp add: uzfs_send_ioctl_def run_defs sample_mem_strlen)
  from uzfs_send_ioctl_history_length [OF run, of "[0x61, 0x62, 0x63]"] sample_mem_string
  obtain cmd r1 rest where
    "write_packets (new_events (scripted [32, 13744, 5, 7, 3] [] []) w')
       = (Envelope cmd, sizeof_uzfs_ioctl_t sample_abi, r1) # rest"
    "his_len cmd = of_nat (length [0x61, 0x62, 0x63 :: 8 word])"
    by (auto simp: sample_zc_def)
  with tr have "his_len \<lparr>packet_size = 13791, ioc_num = 0x5a04, his_len = 3, ioc_ret = 0\<rparr>
      = of_nat (length [0x61, 0x62, 0x63 :: 8 word])"
    by (simp add: new_events_def scripted_def)
  with run tr sample_mem_string show ?thesis by simp
qed

text \<open>
  C8. For every request sent by \<open>uzfs_send_ioctl\<close>, the envelope's \<open>packet_size\<close>
  is the size of the envelope plus the size of the descriptor plus the declared input
  size plus the declared configuration size plus the computed \<open>his_len\<close>, and the
  declared output size contributes nothing.

  The sum is the one of the C expression, in unsigned 64-bit arithmetic: as a number it
  is the sum of the five sizes modulo \<open>2 ^ 64\<close>. The same call on a descriptor that
  differs in \<open>zc_nvlist_dst_size\<close> only writes the same envelope.
\<close>

theorem uzfs_send_ioctl_packet_size:
  assumes "uzfs_send_ioctl K mem w fd request zc = Some (r, w')"
  shows "\<exists>cmd r1 rest.
     write_packets (new_events w w') = (Envelope cmd, sizeof_uzfs_ioctl_t K, r1) # rest \<and>
     packet_size cmd = sizeof_uzfs_ioctl_t K + sizeof_zfs_cmd_t K
        + zc_nvlist_src_size zc + zc_nvlist_conf_size zc + his_len cmd \<and>
     unat (packet_size cmd) = (unat (sizeof_uzfs_ioctl_t K) + unat (sizeof_zfs_cmd_t K)
        + unat (zc_nvlist_src_size zc) + unat (zc_nvlist_conf_size zc) + unat (his_len cmd))
        mod 2 ^ 64 \<and>
     (uzfs_send_ioctl K mem w fd request (zc\<lparr>zc_nvlist_dst_size := d\<rparr>) = Some (r2, w2) \<longrightarrow>
        (\<exists>r1' rest'. write_packets (new_events w w2)
           = (Envelope cmd, sizeof_uzfs_ioctl_t K, r1') # rest'))"
proof -
  from uzfs_send_ioctl_envelope [OF assms] obtain n r1 rest where
    n: "if zc_history_len zc = 0 \<and> zc_history zc \<noteq> 0
        then strlen mem (zc_history zc) = Some n else n = 0" and
    sent: "write_packets (new_events w w') =
       (Envelope \<lparr>packet_size = sizeof_uzfs_ioctl_t K + sizeof_zfs_cmd_t K
                     + zc_nvlist_src_size zc + zc_nvlist_conf_size zc + n,
                  ioc_num = request, his_len = n, ioc_ret = 0\<rparr>,
        sizeof_uzfs_ioctl_t K, r1) # rest"
    by blast
  let ?cmd = "\<lparr>packet_size = sizeof_uzfs_ioctl_t K + sizeof_zfs_cmd_t K
                     + zc_nvlist_src_size zc + zc_nvlist_conf_size zc + n,
                  ioc_num = request, his_len = n, ioc_ret = 0\<rparr>"
  have size: "unat (packet_size ?cmd) = (unat (sizeof_uzfs_ioctl_t K) + unat (sizeof_zfs_cmd_t K)
        + unat (zc_nvlist_src_size zc) + unat (zc_nvlist_conf_size zc) + unat (his_len ?cmd))
        mod 2 ^ 64"
    by (simp add: unat_word_ariths mod_simps)
  have other: "\<exists>r1' rest'. write_packets (new_events w w2)
           = (Envelope ?cmd, sizeof_uzfs_ioctl_t K, r1') # rest'"
    if "uzfs_send_ioctl K mem w fd request (zc\<lparr>zc_nvlist_dst_size := d\<rparr>) = Some (r2, w2)"
    using uzfs_send_ioctl_envelope [OF that] n by (auto split: if_splits)
  from sent size other show ?thesis
    by (intro exI [of _ ?cmd] exI [of _ r1] exI [of _ rest]) simp
qed

text \<open>
  The same request: 32 + 13744 + 5 + 7 + 3 = 13791, without the 6 bytes declared for the
  output.
\<close>

theorem uzfs_send_ioctl_packet_size_witness:
  "map_option (\<lambda>(r, w'). (r, map fst (take 1 (write_packets (trace w')))))
     (uzfs_send_ioctl sample_abi sample_mem (scripted [32, 13744, 5, 7, 3] [] []) 3 0x5a04
        (sample_zc\<lparr>zc_history_len := 0\<rparr>))
   = Some (0, [Envelope \<lparr>packet_size = 32 + 13744 + 5 + 7 + 3, ioc_num = 0x5a04,
                 his_len = 3, ioc_ret = 0\<rparr>])"
proof -
  obtain w' where run:
    "uzfs_send_ioctl sample_abi sample_mem (scripted [32, 13744, 5, 7, 3] [] []) 3 0x5a04
        (sample_zc\<lparr>zc_history_len := 0\<rparr>) = Some (0, w')"
    and tr: "map fst (take 1 (write_packets (trace w'))) =
      [Envelope \<lparr>packet_size = 13791, ioc_num = 0x5a04, his_len = 3, ioc_ret = 0\<rparr>]"
    by (simp add: uzfs_send_ioctl_def run_defs sample_mem_strlen)
  from uzfs_send_ioctl_packet_size [OF run]
  obtain cmd r1 rest where
    "write_packets (new_events (scripted [32, 13744, 5, 7, 3] [] []) w')
       = (Envelope cmd, sizeof_uzfs_ioctl_t sample_abi, r1) # rest"
    "packet_size cmd = sizeof_uzfs_ioctl_t sample_abi + sizeof_zfs_cmd_t sample_abi
        + zc_nvlist_src_size (sample_zc\<lparr>zc_history_len := 0\<rparr>)
        + zc_nvlist_conf_size (sample_zc\<lparr>zc_history_len := 0\<rparr>) + his_len cmd"
    by blast
  with tr have "packet_size \<lparr>packet_size = 13791, ioc_num = 0x5a04, his_len = 3, ioc_ret = 0\<rparr>
      = (32 + 13744 + 5 + 7 + 3 :: 64 word)"
    by (simp add: new_events_def scripted_def sample_abi_def sample_zc_def)
  with run tr show ?thesis by simp
qed

subsection \<open>The transfer of the file descriptor\<close>

text \<open>
  C2. The claim: the sender calls \<open>do_sendfd\<close> and the receiver calls \<open>do_recvfd\<close>
  if and only if the operation code is one of \<open>ZFS_IOC_SEND\<close>, \<open>ZFS_IOC_RECV\<close>,
  \<open>ZFS_IOC_RECV_NEW\<close>, \<open>ZFS_IOC_SEND_NEW\<close>, and for \<open>ZFS_IOC_SEND\<close> only when
  \<open>zc_guid\<close> is not zero; for every other operation no descriptor is transferred.

  The comment above the test in \<open>uzfs_send_ioctl\<close> says the same: with \<open>!zc->zc_guid\<close>
  the call only estimates and the descriptor need not be sent. The test itself is
  \<open>ioc_num == ZFS_IOC_SEND && !zc->zc_guid\<close>, in all three places where it occurs. So
  for \<open>ZFS_IOC_SEND\<close> with \<open>zc_guid = 0\<close> the sender calls \<open>do_sendfd\<close> (with the
  cookie 5 on socket 3) and the receiver calls \<open>do_recvfd\<close>, and with \<open>zc_guid = 7\<close>
  neither call is made and the receiver's descriptor stays -1.
\<close>

theorem fd_transfer_gate_inverted:
  "map_option (\<lambda>(r, w'). (r, sendfd_calls (trace w')))
     (uzfs_send_ioctl sample_abi sample_mem (scripted [32, 13744, 5, 7] [] [0]) 3
        (ZFS_IOC_SEND sample_abi) (sample_zc\<lparr>zc_guid := 0\<rparr>))
     = Some (0, [(3, 5)])
   \<and> map_option (\<lambda>(r, w'). (r, sendfd_calls (trace w')))
     (uzfs_send_ioctl sample_abi sample_mem (scripted [32, 13744, 5, 7] [] [0]) 3
        (ZFS_IOC_SEND sample_abi) (sample_zc\<lparr>zc_guid := 7\<rparr>))
     = Some (0, [])
   \<and> map_option (\<lambda>(r, w', zc', info'). (r, recvfd_calls (trace w'), uzfs_recvfd info'))
     (uzfs_recv_ioctl sample_abi
        (scripted [32, 13744, 5, 7] [0x1000, 0x2000, 0x3000, 0x4000] [9]) 3 sample_zc
        \<lparr>uzfs_cmd = sample_cmd, uzfs_recvfd = 0\<rparr>
        \<lparr>packet_size = 13788, ioc_num = ZFS_IOC_SEND sample_abi, his_len = 0, ioc_ret = 0\<rparr>
        (sample_zc\<lparr>zc_guid := 0\<rparr>))
     = Some (0, [3], 9)
   \<and> map_option (\<lambda>(r, w', zc', info'). (r, recvfd_calls (trace w'), uzfs_recvfd info'))
     (uzfs_recv_ioctl sample_abi
        (scripted [32, 13744, 5, 7] [0x1000, 0x2000, 0x3000, 0x4000] [9]) 3 sample_zc
        \<lparr>uzfs_cmd = sample_cmd, uzfs_recvfd = 0\<rparr>
        \<lparr>packet_size = 13788, ioc_num = ZFS_IOC_SEND sample_abi, his_len = 0, ioc_ret = 0\<rparr>
        (sample_zc\<lparr>zc_guid := 7\<rparr>))
     = Some (0, [], -1)"
  by (simp add: uzfs_send_ioctl_def uzfs_recv_ioctl_def run_defs ioctl_init_defs)


end
